theory Spec2Isabelle
  imports Complex_Main "HOL-Library.Monad_Syntax"
begin

section \<open>Market data snapshot: a shallow embedding of market/data.go\<close>

text \<open>
  The Go package \<^verbatim>\<open>market\<close> builds a technical-analysis snapshot of a symbol from two
  candle sequences. This theory embeds its indicator functions (EMA, MACD, RSI, ATR),
  the trailing-series sampler and the aggregating entry point \<^verbatim>\<open>GetWithInterval\<close>.

  Numbers. A Go \<^verbatim>\<open>float64\<close> is modelled as a \<^typ>\<open>real\<close>: arithmetic is exact, there is
  no rounding, no infinity and no NaN. The theorems below are therefore statements about
  the algorithms (which candles enter which formula, in which order), not about the last
  bit of an IEEE-754 result. A Go \<^verbatim>\<open>int\<close> is an \<^typ>\<open>int\<close>; no value computed from one
  here comes near 64 bits. The \<^verbatim>\<open>period\<close> argument of the indicator functions is a
  \<^typ>\<open>nat\<close>: every call site passes one of the constants 3, 7, 12, 14, 20, 26 and 50,
  and the theorems that divide by it assume it positive.

  Effects. The three HTTP fetches are the only effects; their outcomes are the fields of a
  \<open>provider\<close> record, a sum with the error on the left. A run-time panic of the Go code
  (integer division by zero, index out of range) is a result of its own, different from
  a returned error. Every index expression and slice expression of the code is checked as
  Go checks it: the indicator functions return an option, and \<open>None\<close> is the panic
  \<^verbatim>\<open>index out of range\<close>.
\<close>

subsection \<open>Data model\<close>

record Kline =
  OpenTime :: int
  Open :: real
  High :: real
  Low :: real
  Close :: real
  Volume :: real
  CloseTime :: int

record OIData =
  Latest :: real
  Average :: real

record IntradayData =
  MidPrices :: "real list"
  EMA20Values :: "real list"
  MACDValues :: "real list"
  RSI7Values :: "real list"
  RSI14Values :: "real list"
  Interval :: string

text \<open>
  The fields \<^verbatim>\<open>MACDValues\<close> and \<^verbatim>\<open>RSI14Values\<close> of \<^verbatim>\<open>LongerTermData\<close> carry the prefix
  \<open>LT_\<close>, since a record field is a constant and \<open>IntradayData\<close> has the same names.
\<close>

record LongerTermData =
  EMA20 :: real
  EMA50 :: real
  ATR3 :: real
  ATR14 :: real
  CurrentVolume :: real
  AverageVolume :: real
  LT_MACDValues :: "real list"
  LT_RSI14Values :: "real list"

record Data =
  Symbol :: string
  CurrentPrice :: real
  PriceChange1h :: real
  PriceChange4h :: real
  CurrentEMA20 :: real
  CurrentMACD :: real
  CurrentRSI7 :: real
  OpenInterest :: OIData
  FundingRate :: real
  IntradaySeries :: IntradayData
  LongerTermContext :: LongerTermData

subsection \<open>Indexing\<close>

text \<open>
  \<^verbatim>\<open>xs[i]\<close> on a Go integer \<open>i\<close>: the element, or the panic when \<open>i\<close> is negative or
  not below \<^verbatim>\<open>len(xs)\<close>. \<^verbatim>\<open>xs[i] = v\<close> likewise. \<^verbatim>\<open>xs[:n]\<close> panics when \<open>n\<close> is
  negative or above the capacity, which is the length for the slices of this package
  (\<^verbatim>\<open>getKlines\<close> makes them with \<^verbatim>\<open>make([]Kline, len(rawData))\<close>).
\<close>

definition item_at :: "'a list \<Rightarrow> int \<Rightarrow> 'a option" where
  "item_at xs i = (if 0 \<le> i \<and> i < int (length xs) then Some (xs ! nat i) else None)"

definition store :: "'a list \<Rightarrow> int \<Rightarrow> 'a \<Rightarrow> 'a list option" where
  "store xs i v = (if 0 \<le> i \<and> i < int (length xs) then Some (xs[nat i := v]) else None)"

definition slice_to :: "'a list \<Rightarrow> int \<Rightarrow> 'a list option" where
  "slice_to xs n = (if 0 \<le> n \<and> n \<le> int (length xs) then Some (take (nat n) xs) else None)"

subsection \<open>calculateEMA and calculateMACD\<close>

text \<open>The loop \<^verbatim>\<open>for i := 0; i < period; i++ { sum += klines[i].Close }\<close>.\<close>

function ema_sum :: "Kline list \<Rightarrow> nat \<Rightarrow> nat \<Rightarrow> real \<Rightarrow> real option" where
  "ema_sum klines period i sm =
     (if i < period
      then do {
        k \<leftarrow> item_at klines (int i);
        ema_sum klines period (i + 1) (sm + Close k)
      }
      else Some sm)"
  by pat_completeness auto
termination
  by (relation "measure (\<lambda>(klines, period, i, sm). period - i)") auto

text \<open>The loop \<^verbatim>\<open>for i := period; i < len(klines); i++\<close> of the recurrence.\<close>

function ema_loop :: "Kline list \<Rightarrow> real \<Rightarrow> nat \<Rightarrow> real \<Rightarrow> real option" where
  "ema_loop klines multiplier i ema =
     (if i < length klines
      then do {
        k \<leftarrow> item_at klines (int i);
        ema_loop klines multiplier (i + 1) ((Close k - ema) * multiplier + ema)
      }
      else Some ema)"
  by pat_completeness auto
termination
  by (relation "measure (\<lambda>(klines, multiplier, i, ema). length klines - i)") auto

definition calculateEMA :: "Kline list \<Rightarrow> nat \<Rightarrow> real option" where
  "calculateEMA klines period =
     (if length klines < period then Some 0
      else do {
        sm \<leftarrow> ema_sum klines period 0 0;
        let ema = sm / real period;
        let multiplier = 2 / real (period + 1);
        ema_loop klines multiplier period ema
      })"

definition calculateMACD :: "Kline list \<Rightarrow> real option" where
  "calculateMACD klines =
     (if length klines < 26 then Some 0
      else do {
        ema12 \<leftarrow> calculateEMA klines 12;
        ema26 \<leftarrow> calculateEMA klines 26;
        Some (ema12 - ema26)
      })"

subsection \<open>calculateRSI\<close>

text \<open>
  The seeding loop \<^verbatim>\<open>for i := 1; i <= period; i++\<close>; the state is the pair
  \<open>(gains, losses)\<close>.
\<close>

function rsi_seed ::
  "Kline list \<Rightarrow> nat \<Rightarrow> nat \<Rightarrow> real \<times> real \<Rightarrow> (real \<times> real) option" where
  "rsi_seed klines period i (gains, losses) =
     (if i \<le> period
      then do {
        cur \<leftarrow> item_at klines (int i);
        prev \<leftarrow> item_at klines (int i - 1);
        let change = Close cur - Close prev;
        if change > 0
        then rsi_seed klines period (i + 1) (gains + change, losses)
        else rsi_seed klines period (i + 1) (gains, losses + - change)
      }
      else Some (gains, losses))"
  by pat_completeness auto
termination
  by (relation "measure (\<lambda>(klines, period, i, gl). Suc period - i)") auto

text \<open>
  The smoothing loop \<^verbatim>\<open>for i := period + 1; i < len(klines); i++\<close>; the state is the
  pair \<open>(avgGain, avgLoss)\<close>. \<^verbatim>\<open>float64(period-1)\<close> converts the integer difference.
\<close>

function rsi_loop ::
  "Kline list \<Rightarrow> nat \<Rightarrow> nat \<Rightarrow> real \<times> real \<Rightarrow> (real \<times> real) option" where
  "rsi_loop klines period i (avgGain, avgLoss) =
     (if i < length klines
      then do {
        cur \<leftarrow> item_at klines (int i);
        prev \<leftarrow> item_at klines (int i - 1);
        let change = Close cur - Close prev;
        if change > 0
        then rsi_loop klines period (i + 1)
               ((avgGain * real_of_int (int period - 1) + change) / real period,
                (avgLoss * real_of_int (int period - 1)) / real period)
        else rsi_loop klines period (i + 1)
               ((avgGain * real_of_int (int period - 1)) / real period,
                (avgLoss * real_of_int (int period - 1) + (- change)) / real period)
      }
      else Some (avgGain, avgLoss))"
  by pat_completeness auto
termination
  by (relation "measure (\<lambda>(klines, period, i, gl). length klines - i)") auto

definition calculateRSI :: "Kline list \<Rightarrow> nat \<Rightarrow> real option" where
  "calculateRSI klines period =
     (if length klines \<le> period then Some 0
      else do {
        (gains, losses) \<leftarrow> rsi_seed klines period 1 (0, 0);
        let avgGain0 = gains / real period;
        let avgLoss0 = losses / real period;
        (avgGain, avgLoss) \<leftarrow> rsi_loop klines period (period + 1) (avgGain0, avgLoss0);
        if avgLoss = 0 then Some 100
        else (let rs = avgGain / avgLoss;
                  rsi = 100 - (100 / (1 + rs))
              in Some rsi)
      })"

subsection \<open>calculateATR\<close>

text \<open>
  \<^verbatim>\<open>trs := make([]float64, len(klines))\<close> is a slice of zeros; the first loop writes
  \<^verbatim>\<open>trs[i]\<close> for \<open>i\<close> from 1, so \<^verbatim>\<open>trs[0]\<close> stays 0 and is never read.
\<close>

function atr_trs :: "Kline list \<Rightarrow> nat \<Rightarrow> real list \<Rightarrow> real list option" where
  "atr_trs klines i trs =
     (if i < length klines
      then do {
        cur \<leftarrow> item_at klines (int i);
        prev \<leftarrow> item_at klines (int i - 1);
        let high = High cur;
        let low = Low cur;
        let prevClose = Close prev;
        let tr1 = high - low;
        let tr2 = \<bar>high - prevClose\<bar>;
        let tr3 = \<bar>low - prevClose\<bar>;
        trs' \<leftarrow> store trs (int i) (max tr1 (max tr2 tr3));
        atr_trs klines (i + 1) trs'
      }
      else Some trs)"
  by pat_completeness auto
termination
  by (relation "measure (\<lambda>(klines, i, trs). length klines - i)") auto

function atr_sum :: "real list \<Rightarrow> nat \<Rightarrow> nat \<Rightarrow> real \<Rightarrow> real option" where
  "atr_sum trs period i sm =
     (if i \<le> period
      then do {
        tr \<leftarrow> item_at trs (int i);
        atr_sum trs period (i + 1) (sm + tr)
      }
      else Some sm)"
  by pat_completeness auto
termination
  by (relation "measure (\<lambda>(trs, period, i, sm). Suc period - i)") auto

function atr_loop :: "real list \<Rightarrow> nat \<Rightarrow> nat \<Rightarrow> nat \<Rightarrow> real \<Rightarrow> real option" where
  "atr_loop trs n period i atr =
     (if i < n
      then do {
        tr \<leftarrow> item_at trs (int i);
        atr_loop trs n period (i + 1) ((atr * real_of_int (int period - 1) + tr) / real period)
      }
      else Some atr)"
  by pat_completeness auto
termination
  by (relation "measure (\<lambda>(trs, n, period, i, atr). n - i)") auto

definition calculateATR :: "Kline list \<Rightarrow> nat \<Rightarrow> real option" where
  "calculateATR klines period =
     (if length klines \<le> period then Some 0
      else do {
        trs \<leftarrow> atr_trs klines 1 (replicate (length klines) 0);
        sm \<leftarrow> atr_sum trs period 1 0;
        let atr = sm / real period;
        atr_loop trs (length klines) period (period + 1) atr
      })"

subsection \<open>calculateIntradaySeries and calculateLongerTermData\<close>

text \<open>
  One pass of the loop \<^verbatim>\<open>for i := start; i < len(klines); i++\<close>; \<^verbatim>\<open>append\<close> adds at
  the end.
\<close>

function intraday_loop :: "Kline list \<Rightarrow> nat \<Rightarrow> IntradayData \<Rightarrow> IntradayData option" where
  "intraday_loop klines i data =
     (if i < length klines
      then do {
        k \<leftarrow> item_at klines (int i);
        let data1 = data\<lparr>MidPrices := MidPrices data @ [Close k]\<rparr>;
        data2 \<leftarrow> (if i \<ge> 19
                  then do {
                    prefix \<leftarrow> slice_to klines (int i + 1);
                    ema20 \<leftarrow> calculateEMA prefix 20;
                    Some (data1\<lparr>EMA20Values := EMA20Values data1 @ [ema20]\<rparr>)
                  }
                  else Some data1);
        data3 \<leftarrow> (if i \<ge> 25
                  then do {
                    prefix \<leftarrow> slice_to klines (int i + 1);
                    macd \<leftarrow> calculateMACD prefix;
                    Some (data2\<lparr>MACDValues := MACDValues data2 @ [macd]\<rparr>)
                  }
                  else Some data2);
        data4 \<leftarrow> (if i \<ge> 7
                  then do {
                    prefix \<leftarrow> slice_to klines (int i + 1);
                    rsi7 \<leftarrow> calculateRSI prefix 7;
                    Some (data3\<lparr>RSI7Values := RSI7Values data3 @ [rsi7]\<rparr>)
                  }
                  else Some data3);
        data5 \<leftarrow> (if i \<ge> 14
                  then do {
                    prefix \<leftarrow> slice_to klines (int i + 1);
                    rsi14 \<leftarrow> calculateRSI prefix 14;
                    Some (data4\<lparr>RSI14Values := RSI14Values data4 @ [rsi14]\<rparr>)
                  }
                  else Some data4);
        intraday_loop klines (i + 1) data5
      }
      else Some data)"
  by pat_completeness auto
termination
  by (relation "measure (\<lambda>(klines, i, data). length klines - i)") auto

text \<open>\<^verbatim>\<open>start := len(klines) - 10; if start < 0 { start = 0 }\<close>, on Go integers.\<close>

definition series_start :: "Kline list \<Rightarrow> nat" where
  "series_start klines =
     (let start = int (length klines) - 10 in nat (if start < 0 then 0 else start))"

definition calculateIntradaySeries :: "Kline list \<Rightarrow> IntradayData option" where
  "calculateIntradaySeries klines =
     (let data = \<lparr>MidPrices = [], EMA20Values = [], MACDValues = [], RSI7Values = [],
                  RSI14Values = [], Interval = []\<rparr>
      in intraday_loop klines (series_start klines) data)"

function longer_loop ::
  "Kline list \<Rightarrow> nat \<Rightarrow> LongerTermData \<Rightarrow> LongerTermData option" where
  "longer_loop klines i data =
     (if i < length klines
      then do {
        data1 \<leftarrow> (if i \<ge> 25
                  then do {
                    prefix \<leftarrow> slice_to klines (int i + 1);
                    macd \<leftarrow> calculateMACD prefix;
                    Some (data\<lparr>LT_MACDValues := LT_MACDValues data @ [macd]\<rparr>)
                  }
                  else Some data);
        data2 \<leftarrow> (if i \<ge> 14
                  then do {
                    prefix \<leftarrow> slice_to klines (int i + 1);
                    rsi14 \<leftarrow> calculateRSI prefix 14;
                    Some (data1\<lparr>LT_RSI14Values := LT_RSI14Values data1 @ [rsi14]\<rparr>)
                  }
                  else Some data1);
        longer_loop klines (i + 1) data2
      }
      else Some data)"
  by pat_completeness auto
termination
  by (relation "measure (\<lambda>(klines, i, data). length klines - i)") auto

text \<open>
  The struct literal leaves the six scalars at Go's zero value. The volume loop
  \<^verbatim>\<open>for _, k := range klines { sum += k.Volume }\<close> is a left fold.
\<close>

definition calculateLongerTermData :: "Kline list \<Rightarrow> LongerTermData option" where
  "calculateLongerTermData klines =
     (let data = \<lparr>EMA20 = 0, EMA50 = 0, ATR3 = 0, ATR14 = 0, CurrentVolume = 0,
                  AverageVolume = 0, LT_MACDValues = [], LT_RSI14Values = []\<rparr>
      in do {
        ema20 \<leftarrow> calculateEMA klines 20;
        let data = data\<lparr>EMA20 := ema20\<rparr>;
        ema50 \<leftarrow> calculateEMA klines 50;
        let data = data\<lparr>EMA50 := ema50\<rparr>;
        atr3 \<leftarrow> calculateATR klines 3;
        let data = data\<lparr>ATR3 := atr3\<rparr>;
        atr14 \<leftarrow> calculateATR klines 14;
        let data = data\<lparr>ATR14 := atr14\<rparr>;
        data \<leftarrow> (if length klines > 0
                 then do {
                   latest \<leftarrow> item_at klines (int (length klines) - 1);
                   let data' = data\<lparr>CurrentVolume := Volume latest\<rparr>;
                   let sm = foldl (\<lambda>sm k. sm + Volume k) 0 klines;
                   Some (data'\<lparr>AverageVolume := sm / real (length klines)\<rparr>)
                 }
                 else Some data);
        longer_loop klines (series_start klines) data
      })"

subsection \<open>Normalize, selectInterval, calculateIntradayLimit\<close>

text \<open>
  A Go string is a sequence of bytes, here a \<^typ>\<open>string\<close>. \<^verbatim>\<open>strings.ToUpper\<close> is
  modelled on ASCII, where it maps the bytes \<open>a\<close> to \<open>z\<close> (97 to 122) to \<open>A\<close> to \<open>Z\<close>
  and keeps every other byte; ticker symbols are ASCII. (On bytes from 128 on Go decodes
  UTF-8 and applies the Unicode mapping, which is outside this model.)
  \<^verbatim>\<open>strings.HasSuffix(s, suffix)\<close> is
  \<^verbatim>\<open>len(s) >= len(suffix) && s[len(s)-len(suffix):] == suffix\<close>.
\<close>

definition toUpperByte :: "char \<Rightarrow> char" where
  "toUpperByte c =
     (let n = (of_char c :: nat) in if 97 \<le> n \<and> n \<le> 122 then char_of (n - 32) else c)"

definition ToUpper :: "string \<Rightarrow> string" where
  "ToUpper s = map toUpperByte s"

definition HasSuffix :: "string \<Rightarrow> string \<Rightarrow> bool" where
  "HasSuffix s suffix =
     (length s \<ge> length suffix \<and> drop (length s - length suffix) s = suffix)"

definition Normalize :: "string \<Rightarrow> string" where
  "Normalize symbol0 =
     (let symbol = ToUpper symbol0
      in if HasSuffix symbol ''USDT'' then symbol else symbol @ ''USDT'')"

definition selectInterval :: "int \<Rightarrow> string" where
  "selectInterval scanIntervalMinutes =
     (if scanIntervalMinutes \<le> 1 then ''1m''
      else if scanIntervalMinutes \<le> 3 then ''3m''
      else if scanIntervalMinutes \<le> 5 then ''5m''
      else if scanIntervalMinutes \<le> 15 then ''15m''
      else if scanIntervalMinutes \<le> 30 then ''30m''
      else ''1h'')"

text \<open>
  Go's integer division truncates towards zero and panics on a zero divisor; \<open>None\<close>
  is the panic.
\<close>

definition go_quo :: "int \<Rightarrow> int \<Rightarrow> int option" where
  "go_quo a b = (if b = 0 then None else Some (sgn a * sgn b * (\<bar>a\<bar> div \<bar>b\<bar>)))"

definition calculateIntradayLimit :: "int \<Rightarrow> int option" where
  "calculateIntradayLimit scanIntervalMinutes =
     (case go_quo 120 scanIntervalMinutes of
        None \<Rightarrow> None
      | Some barsFor2Hours \<Rightarrow> if barsFor2Hours < 40 then Some 40 else Some barsFor2Hours)"

subsection \<open>The market-data provider and GetWithInterval\<close>

text \<open>
  What the three HTTP requests and their decoding produce is given, not computed: a
  \<open>provider\<close> says, for each request, whether it fails (with Go's \<^verbatim>\<open>err\<close>, kept as its
  message) or what it delivers. \<^verbatim>\<open>getOpenInterestData\<close> builds its result from the
  decoded open interest; \<^verbatim>\<open>getFundingRate\<close> returns \<^verbatim>\<open>0, err\<close> on every failure.
  A response whose decoding panics (a candle row that is not an array of the expected
  shape) is outside the model.
\<close>

type_synonym fetch_error = string

record provider =
  klinesResponse :: "string \<Rightarrow> string \<Rightarrow> int \<Rightarrow> fetch_error + Kline list"
  openInterestResponse :: "string \<Rightarrow> fetch_error + real"
  fundingRateResponse :: "string \<Rightarrow> fetch_error + real"

definition getKlines :: "provider \<Rightarrow> string \<Rightarrow> string \<Rightarrow> int \<Rightarrow> fetch_error + Kline list" where
  "getKlines p symbol interval limit = klinesResponse p symbol interval limit"

definition getOpenInterestData :: "provider \<Rightarrow> string \<Rightarrow> fetch_error + OIData" where
  "getOpenInterestData p symbol =
     (case openInterestResponse p symbol of
        Inl err \<Rightarrow> Inl err
      | Inr oi \<Rightarrow> Inr \<lparr>Latest = oi, Average = oi * 0.999\<rparr>)"

definition getFundingRate :: "provider \<Rightarrow> string \<Rightarrow> real \<times> fetch_error option" where
  "getFundingRate p symbol =
     (case fundingRateResponse p symbol of
        Inl err \<Rightarrow> (0, Some err)
      | Inr rate \<Rightarrow> (rate, None))"

text \<open>
  The two errors \<^verbatim>\<open>GetWithInterval\<close> returns wrap the fetch's error in a message: the
  first names the intraday interval, the second the 4-hour candles.
\<close>

datatype error = KlinesError string fetch_error | Klines4hError fetch_error

datatype panic = DivideByZero | IndexOutOfRange

datatype 'a result = Returned 'a | Failed error | Panicked panic

text \<open>
  Lines 100 to 107: the one-hour price change, with the read of
  \<^verbatim>\<open>klinesIntraday[len(klinesIntraday)-barsFor1h-1]\<close>.
\<close>

definition priceChange1h_of :: "Kline list \<Rightarrow> real \<Rightarrow> int \<Rightarrow> panic + real" where
  "priceChange1h_of klinesIntraday currentPrice scanIntervalMinutes =
     (case go_quo 60 scanIntervalMinutes of
        None \<Rightarrow> Inl DivideByZero
      | Some barsFor1h \<Rightarrow>
          if int (length klinesIntraday) \<ge> barsFor1h + 1
          then (case item_at klinesIntraday (int (length klinesIntraday) - barsFor1h - 1) of
                  None \<Rightarrow> Inl IndexOutOfRange
                | Some past \<Rightarrow>
                    (let price1hAgo = Close past
                     in if price1hAgo > 0
                        then Inr (((currentPrice - price1hAgo) / price1hAgo) * 100)
                        else Inr 0))
          else Inr 0)"

text \<open>Lines 109 to 116: the four-hour price change.\<close>

definition priceChange4h_of :: "Kline list \<Rightarrow> real \<Rightarrow> real option" where
  "priceChange4h_of klines4h currentPrice =
     (if length klines4h \<ge> 2
      then do {
        past \<leftarrow> item_at klines4h (int (length klines4h) - 2);
        let price4hAgo = Close past;
        if price4hAgo > 0
        then Some (((currentPrice - price4hAgo) / price4hAgo) * 100)
        else Some 0
      }
      else Some 0)"

text \<open>
  \<^verbatim>\<open>GetWithInterval\<close>, statement by statement. A \<open>None\<close> of an indicator function is
  the panic \<^verbatim>\<open>index out of range\<close>.
\<close>

definition GetWithInterval :: "provider \<Rightarrow> string \<Rightarrow> int \<Rightarrow> Data result" where
  "GetWithInterval p symbol0 scanIntervalMinutes =
     (let symbol = Normalize symbol0;
          interval = selectInterval scanIntervalMinutes
      in case calculateIntradayLimit scanIntervalMinutes of
           None \<Rightarrow> Panicked DivideByZero
         | Some intradayLimit \<Rightarrow>
      (case getKlines p symbol interval intradayLimit of
           Inl err \<Rightarrow> Failed (KlinesError interval err)
         | Inr klinesIntraday \<Rightarrow>
      (case getKlines p symbol ''4h'' 60 of
           Inl err \<Rightarrow> Failed (Klines4hError err)
         | Inr klines4h \<Rightarrow>
      (case item_at klinesIntraday (int (length klinesIntraday) - 1) of
           None \<Rightarrow> Panicked IndexOutOfRange
         | Some latest \<Rightarrow>
      (let currentPrice = Close latest
       in case calculateEMA klinesIntraday 20 of
           None \<Rightarrow> Panicked IndexOutOfRange
         | Some currentEMA20 \<Rightarrow>
      (case calculateMACD klinesIntraday of
           None \<Rightarrow> Panicked IndexOutOfRange
         | Some currentMACD \<Rightarrow>
      (case calculateRSI klinesIntraday 7 of
           None \<Rightarrow> Panicked IndexOutOfRange
         | Some currentRSI7 \<Rightarrow>
      (case priceChange1h_of klinesIntraday currentPrice scanIntervalMinutes of
           Inl pn \<Rightarrow> Panicked pn
         | Inr priceChange1h \<Rightarrow>
      (case priceChange4h_of klines4h currentPrice of
           None \<Rightarrow> Panicked IndexOutOfRange
         | Some priceChange4h \<Rightarrow>
      (let oiData = (case getOpenInterestData p symbol of
                       Inl err \<Rightarrow> \<lparr>Latest = 0, Average = 0\<rparr>
                     | Inr d \<Rightarrow> d);
           fundingRate = fst (getFundingRate p symbol)
       in case calculateIntradaySeries klinesIntraday of
           None \<Rightarrow> Panicked IndexOutOfRange
         | Some intradayData \<Rightarrow>
      (let intradayData = intradayData\<lparr>Interval := interval\<rparr>
       in case calculateLongerTermData klines4h of
           None \<Rightarrow> Panicked IndexOutOfRange
         | Some longerTermData \<Rightarrow>
             Returned \<lparr>Symbol = symbol,
                       CurrentPrice = currentPrice,
                       PriceChange1h = priceChange1h,
                       PriceChange4h = priceChange4h,
                       CurrentEMA20 = currentEMA20,
                       CurrentMACD = currentMACD,
                       CurrentRSI7 = currentRSI7,
                       OpenInterest = oiData,
                       FundingRate = fundingRate,
                       IntradaySeries = intradayData,
                       LongerTermContext = longerTermData\<rparr>)))))))))))"

definition Get :: "provider \<Rightarrow> string \<Rightarrow> Data result" where
  "Get p symbol = GetWithInterval p symbol 3"

section \<open>The specification's formulas\<close>

text \<open>
  The definitions of this section follow the words of the specification, on the list of
  closing prices; the theorems compare them with the functions above, which follow the
  code.
\<close>

text \<open>The recurrence \<open>ema = (close - ema) * (2/(period+1)) + ema\<close>.\<close>

definition ema_step :: "nat \<Rightarrow> real \<Rightarrow> real \<Rightarrow> real" where
  "ema_step period ema close = (close - ema) * (2 / (real period + 1)) + ema"

text \<open>
  Seed with the simple average of the first \<open>period\<close> closes, then apply the recurrence
  once for each later close, in order.
\<close>

definition EMA_spec :: "real list \<Rightarrow> nat \<Rightarrow> real" where
  "EMA_spec closes period =
     (if length closes < period then 0
      else foldl (ema_step period) (sum_list (take period closes) / real period)
             (drop period closes))"

text \<open>The MACD line: the 12-period EMA minus the 26-period EMA, from 26 closes on.\<close>

definition MACD_spec :: "real list \<Rightarrow> real" where
  "MACD_spec closes =
     (if length closes < 26 then 0 else EMA_spec closes 12 - EMA_spec closes 26)"

text \<open>The close-to-close deltas: one for each candle from the second on.\<close>

definition deltas :: "real list \<Rightarrow> real list" where
  "deltas closes = map (\<lambda>j. closes ! j - closes ! (j - 1)) [1..<length closes]"

text \<open>The positive part of a delta and the magnitude of its negative part.\<close>

definition gain_of :: "real \<Rightarrow> real" where
  "gain_of d = (if d > 0 then d else 0)"

definition loss_of :: "real \<Rightarrow> real" where
  "loss_of d = (if d < 0 then - d else 0)"

text \<open>The Wilder recurrence \<open>avg = (avg*(period-1) + contribution)/period\<close>.\<close>

definition wilder :: "nat \<Rightarrow> real \<Rightarrow> real \<Rightarrow> real" where
  "wilder period avg x = (avg * (real period - 1) + x) / real period"

text \<open>
  The seeded averages (over the first \<open>period\<close> deltas) and the final averages (the
  Wilder recurrence over the deltas that follow).
\<close>

definition seeded_avgGain :: "real list \<Rightarrow> nat \<Rightarrow> real" where
  "seeded_avgGain closes period =
     sum_list (map gain_of (take period (deltas closes))) / real period"

definition seeded_avgLoss :: "real list \<Rightarrow> nat \<Rightarrow> real" where
  "seeded_avgLoss closes period =
     sum_list (map loss_of (take period (deltas closes))) / real period"

definition final_avgGain :: "real list \<Rightarrow> nat \<Rightarrow> real" where
  "final_avgGain closes period =
     foldl (wilder period) (seeded_avgGain closes period)
       (map gain_of (drop period (deltas closes)))"

definition final_avgLoss :: "real list \<Rightarrow> nat \<Rightarrow> real" where
  "final_avgLoss closes period =
     foldl (wilder period) (seeded_avgLoss closes period)
       (map loss_of (drop period (deltas closes)))"

definition RSI_spec :: "real list \<Rightarrow> nat \<Rightarrow> real" where
  "RSI_spec closes period =
     (if length closes \<le> period then 0
      else if final_avgLoss closes period = 0 then 100
      else 100 - 100 / (1 + final_avgGain closes period / final_avgLoss closes period))"

text \<open>
  The true range of the candle at position \<open>i\<close>, from the second candle on, and the
  list of the true ranges at positions 1 to the last.
\<close>

definition true_range :: "Kline list \<Rightarrow> nat \<Rightarrow> real" where
  "true_range klines i =
     max (High (klines ! i) - Low (klines ! i))
       (max \<bar>High (klines ! i) - Close (klines ! (i - 1))\<bar>
            \<bar>Low (klines ! i) - Close (klines ! (i - 1))\<bar>)"

definition true_ranges :: "Kline list \<Rightarrow> real list" where
  "true_ranges klines = map (true_range klines) [1..<length klines]"

definition ATR_spec :: "Kline list \<Rightarrow> nat \<Rightarrow> real" where
  "ATR_spec klines period =
     (if length klines \<le> period then 0
      else foldl (wilder period) (sum_list (take period (true_ranges klines)) / real period)
             (drop period (true_ranges klines)))"

text \<open>
  The Series Sampler: the candle indices of the trailing window \<open>[max(0, N-10), N-1]\<close>,
  and the series of an indicator \<open>f\<close> with threshold \<open>t\<close>: \<open>f\<close> over the prefix
  \<open>[0..i]\<close> for the indices \<open>i \<ge> t\<close> of the window, in order.
\<close>

definition trailing_window :: "nat \<Rightarrow> nat list" where
  "trailing_window N = [nat (max 0 (int N - 10))..<N]"

definition sampled_series :: "(Kline list \<Rightarrow> real) \<Rightarrow> nat \<Rightarrow> Kline list \<Rightarrow> real list" where
  "sampled_series f t klines =
     map (\<lambda>i. f (take (i + 1) klines))
       (filter (\<lambda>i. i \<ge> t) (trailing_window (length klines)))"

text \<open>
  The trailing series of the intraday sequence and the longer-term context of the
  4-hour sequence, in closed form.
\<close>

definition intraday_series_spec :: "Kline list \<Rightarrow> IntradayData" where
  "intraday_series_spec klines =
     \<lparr>MidPrices = map (\<lambda>i. Close (klines ! i)) (trailing_window (length klines)),
      EMA20Values = sampled_series (\<lambda>ks. EMA_spec (map Close ks) 20) 19 klines,
      MACDValues = sampled_series (\<lambda>ks. MACD_spec (map Close ks)) 25 klines,
      RSI7Values = sampled_series (\<lambda>ks. RSI_spec (map Close ks) 7) 7 klines,
      RSI14Values = sampled_series (\<lambda>ks. RSI_spec (map Close ks) 14) 14 klines,
      Interval = []\<rparr>"

definition longer_term_spec :: "Kline list \<Rightarrow> LongerTermData" where
  "longer_term_spec klines =
     \<lparr>EMA20 = EMA_spec (map Close klines) 20,
      EMA50 = EMA_spec (map Close klines) 50,
      ATR3 = ATR_spec klines 3,
      ATR14 = ATR_spec klines 14,
      CurrentVolume = (if klines = [] then 0 else Volume (last klines)),
      AverageVolume =
        (if klines = [] then 0 else sum_list (map Volume klines) / real (length klines)),
      LT_MACDValues = sampled_series (\<lambda>ks. MACD_spec (map Close ks)) 25 klines,
      LT_RSI14Values = sampled_series (\<lambda>ks. RSI_spec (map Close ks) 14) 14 klines\<rparr>"

text \<open>
  The one-hour price change: with \<open>k = floor(60/scanIntervalMinutes)\<close>, the percentage
  change of the latest close against the close \<open>k\<close> candles earlier, when the sequence
  has at least \<open>k + 1\<close> candles and that past close is positive; 0 otherwise.
\<close>

definition priceChange1h_spec :: "Kline list \<Rightarrow> int \<Rightarrow> real" where
  "priceChange1h_spec klines scanIntervalMinutes =
     (let k = nat (60 div scanIntervalMinutes);
          n = length klines
      in if k + 1 \<le> n \<and> 0 < Close (klines ! (n - 1 - k))
         then (Close (klines ! (n - 1)) - Close (klines ! (n - 1 - k))) /
                Close (klines ! (n - 1 - k)) * 100
         else 0)"

text \<open>
  The four-hour price change as the specification words it: the latest 4h candle's
  close against the previous 4h candle's close (index \<open>len-2\<close>); 0 with fewer than two
  candles or a past close that is not positive.
\<close>

definition priceChange4h_spec :: "Kline list \<Rightarrow> real" where
  "priceChange4h_spec klines4h =
     (let n = length klines4h
      in if 2 \<le> n \<and> 0 < Close (klines4h ! (n - 2))
         then (Close (klines4h ! (n - 1)) - Close (klines4h ! (n - 2))) /
                Close (klines4h ! (n - 2)) * 100
         else 0)"

text \<open>
  The four-hour price change against a given current price: the current price against
  the close of the 4h candle at index \<open>len-2\<close>; 0 with fewer than two candles or a past
  close that is not positive.
\<close>

definition priceChange4h_against :: "Kline list \<Rightarrow> real \<Rightarrow> real" where
  "priceChange4h_against klines4h currentPrice =
     (let n = length klines4h
      in if 2 \<le> n \<and> 0 < Close (klines4h ! (n - 2))
         then (currentPrice - Close (klines4h ! (n - 2))) / Close (klines4h ! (n - 2)) * 100
         else 0)"

text \<open>The longer-term context of Go's zero values.\<close>

definition zero_context :: LongerTermData where
  "zero_context = \<lparr>EMA20 = 0, EMA50 = 0, ATR3 = 0, ATR14 = 0, CurrentVolume = 0,
     AverageVolume = 0, LT_MACDValues = [], LT_RSI14Values = []\<rparr>"

section \<open>Test data\<close>

text \<open>
  A candle whose open, high, low and close are all \<open>c\<close>, with a volume; flat and rising
  sequences of such candles; and providers that answer every request alike.
\<close>

definition candle :: "real \<Rightarrow> Kline" where
  "candle c = \<lparr>OpenTime = 0, Open = c, High = c, Low = c, Close = c, Volume = 1, CloseTime = 0\<rparr>"

definition flat_candles :: "nat \<Rightarrow> real \<Rightarrow> Kline list" where
  "flat_candles n c = replicate n (candle c)"

definition rising_candles :: "nat \<Rightarrow> Kline list" where
  "rising_candles n = map (\<lambda>k. candle (real k)) [1..<Suc n]"

text \<open>Four candles closing at 1, 2, 1 and 3: a gain, a loss, a gain.\<close>

definition zigzag :: "Kline list" where
  "zigzag = map candle [1, 2, 1, 3]"

definition fixed_provider ::
  "(fetch_error + Kline list) \<Rightarrow> (fetch_error + Kline list) \<Rightarrow> (fetch_error + real) \<Rightarrow>
   (fetch_error + real) \<Rightarrow> provider" where
  "fixed_provider intraday fourHour oi rate =
     \<lparr>klinesResponse = (\<lambda>symbol interval limit. if interval = ''4h'' then fourHour else intraday),
      openInterestResponse = (\<lambda>symbol. oi),
      fundingRateResponse = (\<lambda>symbol. rate)\<rparr>"

text \<open>
  Twenty-one candles closing at 100 but for the latest, which closes at 110; two 4-hour
  candles closing at 100 and 120; a provider that delivers them.
\<close>

definition hour_candles :: "Kline list" where
  "hour_candles = flat_candles 20 100 @ [candle 110]"

definition two_4h_candles :: "Kline list" where
  "two_4h_candles = [candle 100, candle 120]"

definition good_provider :: provider where
  "good_provider = fixed_provider (Inr hour_candles) (Inr two_4h_candles) (Inr 5000) (Inr 0.0001)"

text \<open>
  Providers with one failing request: the intraday candles, the 4-hour candles, or the
  open interest and the funding rate; and providers that deliver an empty 4-hour
  sequence or an empty intraday sequence.
\<close>

definition no_intraday_provider :: provider where
  "no_intraday_provider =
     fixed_provider (Inl ''timeout'') (Inr two_4h_candles) (Inr 5000) (Inr 0.0001)"

definition no_4h_provider :: provider where
  "no_4h_provider = fixed_provider (Inr hour_candles) (Inl ''timeout'') (Inr 5000) (Inr 0.0001)"

definition no_oi_provider :: provider where
  "no_oi_provider =
     fixed_provider (Inr hour_candles) (Inr two_4h_candles) (Inl ''timeout'') (Inl ''timeout'')"

definition empty_4h_provider :: provider where
  "empty_4h_provider = fixed_provider (Inr hour_candles) (Inr []) (Inr 5000) (Inr 0.0001)"

definition empty_intraday_provider :: provider where
  "empty_intraday_provider = fixed_provider (Inr []) (Inr two_4h_candles) (Inr 5000) (Inr 0.0001)"

text \<open>The delta that the RSI loops compute at candle index \<open>j\<close>.\<close>

definition delta_at :: "Kline list \<Rightarrow> nat \<Rightarrow> real" where
  "delta_at klines j = Close (klines ! j) - Close (klines ! (j - 1))"

section \<open>The loops as folds\<close>

text \<open>
  Each loop of the code is unfolded one pass at a time and then, by induction on the
  number of passes left, written as a sum or a left fold over the indices it visits.
  The guards in front of the loops keep every index in range, so each loop returns.
\<close>

declare ema_sum.simps [simp del] ema_loop.simps [simp del]
declare rsi_seed.simps [simp del] rsi_loop.simps [simp del]
declare atr_trs.simps [simp del] atr_sum.simps [simp del] atr_loop.simps [simp del]
declare intraday_loop.simps [simp del] longer_loop.simps [simp del]

subsection \<open>Indexing in range\<close>

lemma item_at_nat: "i < length xs \<Longrightarrow> item_at xs (int i) = Some (xs ! i)"
  by (simp add: item_at_def)

lemma item_at_pred: "0 < i \<Longrightarrow> i \<le> length xs \<Longrightarrow> item_at xs (int i - 1) = Some (xs ! (i - 1))"
  by (simp add: item_at_def nat_diff_distrib')

lemma item_at_last: "xs \<noteq> [] \<Longrightarrow> item_at xs (int (length xs) - 1) = Some (xs ! (length xs - 1))"
  by (simp add: item_at_pred)

lemma item_at_Nil: "item_at [] i = None"
  by (simp add: item_at_def)

lemma store_nat: "i < length xs \<Longrightarrow> store xs (int i) v = Some (xs[i := v])"
  by (simp add: store_def)

lemma slice_to_Suc: "i < length xs \<Longrightarrow> slice_to xs (int i + 1) = Some (take (Suc i) xs)"
  by (simp add: slice_to_def nat_add_distrib)

subsection \<open>EMA\<close>

lemma ema_sum_step:
  "i < period \<Longrightarrow> i < length klines \<Longrightarrow>
   ema_sum klines period i sm = ema_sum klines period (Suc i) (sm + Close (klines ! i))"
  by (subst ema_sum.simps) (simp add: item_at_nat)

lemma ema_sum_stop: "\<not> i < period \<Longrightarrow> ema_sum klines period i sm = Some sm"
  by (subst ema_sum.simps) simp

lemma ema_sum_eq:
  "i \<le> period \<Longrightarrow> period \<le> length klines \<Longrightarrow>
   ema_sum klines period i sm =
     Some (sm + sum_list (map (\<lambda>j. Close (klines ! j)) [i..<period]))"
proof (induction "period - i" arbitrary: i sm)
  case 0
  then show ?case by (simp add: ema_sum_stop)
next
  case (Suc n)
  then have lt: "i < period" "i < length klines" and n: "n = period - Suc i" by simp_all
  show ?case
    using Suc.hyps(1) [OF n] lt Suc.prems
    by (simp add: ema_sum_step upt_conv_Cons add.assoc)
qed

lemma ema_loop_step:
  "i < length klines \<Longrightarrow>
   ema_loop klines m i ema = ema_loop klines m (Suc i) ((Close (klines ! i) - ema) * m + ema)"
  by (subst ema_loop.simps) (simp add: item_at_nat)

lemma ema_loop_stop: "\<not> i < length klines \<Longrightarrow> ema_loop klines m i ema = Some ema"
  by (subst ema_loop.simps) simp

lemma ema_loop_eq:
  "ema_loop klines m i ema =
   Some (foldl (\<lambda>e c. (c - e) * m + e) ema
           (map (\<lambda>j. Close (klines ! j)) [i..<length klines]))"
proof (induction "length klines - i" arbitrary: i ema)
  case 0
  then show ?case by (simp add: ema_loop_stop)
next
  case (Suc n)
  then have lt: "i < length klines" and n: "n = length klines - Suc i" by simp_all
  show ?case
    using Suc.hyps(1) [OF n] lt
    by (simp add: ema_loop_step upt_conv_Cons)
qed

lemma map_nth_upt_take: "n \<le> length xs \<Longrightarrow> map (\<lambda>j. f (xs ! j)) [0..<n] = take n (map f xs)"
  by (simp add: list_eq_iff_nth_eq)

lemma map_nth_upt_drop: "map (\<lambda>j. f (xs ! j)) [n..<length xs] = drop n (map f xs)"
  by (simp add: list_eq_iff_nth_eq)

lemma calculateEMA_eq:
  "calculateEMA klines period = Some (EMA_spec (map Close klines) period)"
  by (simp add: calculateEMA_def EMA_spec_def ema_sum_eq ema_loop_eq map_nth_upt_take
      map_nth_upt_drop ema_step_def [abs_def] add.commute)

lemma calculateMACD_eq: "calculateMACD klines = Some (MACD_spec (map Close klines))"
  by (simp add: calculateMACD_def MACD_spec_def calculateEMA_eq)

subsection \<open>RSI\<close>

lemma rsi_seed_step:
  "0 < i \<Longrightarrow> i \<le> period \<Longrightarrow> i < length klines \<Longrightarrow>
   rsi_seed klines period i (g, l) =
   rsi_seed klines period (Suc i)
     (g + gain_of (delta_at klines i), l + loss_of (delta_at klines i))"
  by (subst rsi_seed.simps)
    (simp add: item_at_nat item_at_pred delta_at_def gain_of_def loss_of_def Let_def)

lemma rsi_seed_stop: "\<not> i \<le> period \<Longrightarrow> rsi_seed klines period i (g, l) = Some (g, l)"
  by (subst rsi_seed.simps) simp

lemma rsi_seed_eq:
  "0 < i \<Longrightarrow> i \<le> Suc period \<Longrightarrow> period < length klines \<Longrightarrow>
   rsi_seed klines period i (g, l) =
     Some (g + sum_list (map (\<lambda>j. gain_of (delta_at klines j)) [i..<Suc period]),
           l + sum_list (map (\<lambda>j. loss_of (delta_at klines j)) [i..<Suc period]))"
proof (induction "Suc period - i" arbitrary: i g l)
  case 0
  then have "i = Suc period" by simp
  then show ?case by (simp add: rsi_seed_stop)
next
  case (Suc n)
  then have le: "i \<le> period" and lt: "i < length klines" and n: "n = Suc period - Suc i"
    by simp_all
  have u: "[i..<Suc period] = i # [Suc i..<Suc period]"
    using le by (simp add: upt_conv_Cons)
  show ?case
    using Suc.hyps(1) [OF n] le Suc.prems
    by (simp add: rsi_seed_step [OF Suc.prems(1) le lt] u add.assoc del: upt_Suc)
qed

lemma rsi_loop_step:
  "0 < i \<Longrightarrow> i < length klines \<Longrightarrow>
   rsi_loop klines period i (a, b) =
   rsi_loop klines period (Suc i)
     (wilder period a (gain_of (delta_at klines i)), wilder period b (loss_of (delta_at klines i)))"
  by (subst rsi_loop.simps)
    (simp add: item_at_nat item_at_pred delta_at_def gain_of_def loss_of_def wilder_def Let_def)

lemma rsi_loop_stop:
  "\<not> i < length klines \<Longrightarrow> rsi_loop klines period i (a, b) = Some (a, b)"
  by (subst rsi_loop.simps) simp

lemma rsi_loop_eq:
  "0 < i \<Longrightarrow>
   rsi_loop klines period i (a, b) =
     Some (foldl (wilder period) a (map (\<lambda>j. gain_of (delta_at klines j)) [i..<length klines]),
           foldl (wilder period) b (map (\<lambda>j. loss_of (delta_at klines j)) [i..<length klines]))"
proof (induction "length klines - i" arbitrary: i a b)
  case 0
  then show ?case by (simp add: rsi_loop_stop)
next
  case (Suc n)
  then have lt: "i < length klines" and n: "n = length klines - Suc i" by simp_all
  show ?case
    using Suc.hyps(1) [OF n] lt
    by (simp add: rsi_loop_step [OF Suc.prems lt] upt_conv_Cons)
qed

lemma deltas_delta_at:
  "deltas (map Close klines) = map (delta_at klines) [1..<length klines]"
  by (auto simp: deltas_def delta_at_def)

lemma take_deltas:
  "period < length klines \<Longrightarrow>
   take period (deltas (map Close klines)) = map (delta_at klines) [1..<Suc period]"
  by (simp add: deltas_delta_at take_map take_upt del: upt_Suc)

lemma drop_deltas:
  "drop period (deltas (map Close klines)) = map (delta_at klines) [Suc period..<length klines]"
  by (simp add: deltas_delta_at drop_map drop_upt del: upt_Suc)

lemma calculateRSI_eq:
  "calculateRSI klines period = Some (RSI_spec (map Close klines) period)"
  by (simp add: calculateRSI_def RSI_spec_def rsi_seed_eq rsi_loop_eq final_avgLoss_def
      final_avgGain_def seeded_avgGain_def seeded_avgLoss_def take_deltas drop_deltas
      o_def del: upt_Suc)

subsection \<open>ATR\<close>

lemma atr_trs_step:
  "0 < i \<Longrightarrow> i < length klines \<Longrightarrow> length trs = length klines \<Longrightarrow>
   atr_trs klines i trs = atr_trs klines (Suc i) (trs[i := true_range klines i])"
  by (subst atr_trs.simps)
    (simp add: item_at_nat item_at_pred store_nat true_range_def Let_def)

lemma atr_trs_stop: "\<not> i < length klines \<Longrightarrow> atr_trs klines i trs = Some trs"
  by (subst atr_trs.simps) simp

lemma atr_trs_eq:
  "0 < i \<Longrightarrow> length trs = length klines \<Longrightarrow>
   \<exists>r. atr_trs klines i trs = Some r \<and> length r = length klines \<and>
       (\<forall>j < length klines. r ! j = (if i \<le> j then true_range klines j else trs ! j))"
proof (induction "length klines - i" arbitrary: i trs)
  case 0
  then show ?case by (simp add: atr_trs_stop)
next
  case (Suc n)
  then have lt: "i < length klines" and n: "n = length klines - Suc i" by simp_all
  have len: "length (trs[i := true_range klines i]) = length klines"
    using Suc.prems by simp
  show ?case
    using Suc.hyps(1) [OF n _ len] lt Suc.prems
    by (auto simp: atr_trs_step nth_list_update not_less_eq_eq dest: antisym)
qed

lemma atr_sum_step:
  "i \<le> period \<Longrightarrow> i < length trs \<Longrightarrow>
   atr_sum trs period i sm = atr_sum trs period (Suc i) (sm + trs ! i)"
  by (subst atr_sum.simps) (simp add: item_at_nat)

lemma atr_sum_stop: "\<not> i \<le> period \<Longrightarrow> atr_sum trs period i sm = Some sm"
  by (subst atr_sum.simps) simp

lemma atr_sum_eq:
  "i \<le> Suc period \<Longrightarrow> period < length trs \<Longrightarrow>
   atr_sum trs period i sm = Some (sm + sum_list (map (\<lambda>j. trs ! j) [i..<Suc period]))"
proof (induction "Suc period - i" arbitrary: i sm)
  case 0
  then have "i = Suc period" by simp
  then show ?case by (simp add: atr_sum_stop)
next
  case (Suc n)
  then have le: "i \<le> period" and lt: "i < length trs" and n: "n = Suc period - Suc i"
    by simp_all
  have u: "[i..<Suc period] = i # [Suc i..<Suc period]"
    using le by (simp add: upt_conv_Cons)
  show ?case
    using Suc.hyps(1) [OF n] le Suc.prems
    by (simp add: atr_sum_step [OF le lt] u add.assoc del: upt_Suc)
qed

lemma atr_loop_step:
  "i < n \<Longrightarrow> i < length trs \<Longrightarrow>
   atr_loop trs n period i atr = atr_loop trs n period (Suc i) (wilder period atr (trs ! i))"
  by (subst atr_loop.simps) (simp add: item_at_nat wilder_def)

lemma atr_loop_stop: "\<not> i < n \<Longrightarrow> atr_loop trs n period i atr = Some atr"
  by (subst atr_loop.simps) simp

lemma atr_loop_eq:
  "n \<le> length trs \<Longrightarrow>
   atr_loop trs n period i atr = Some (foldl (wilder period) atr (map (\<lambda>j. trs ! j) [i..<n]))"
proof (induction "n - i" arbitrary: i atr)
  case 0
  then show ?case by (simp add: atr_loop_stop)
next
  case (Suc m)
  then have lt: "i < n" "i < length trs" and m: "m = n - Suc i" by simp_all
  show ?case
    using Suc.hyps(1) [OF m Suc.prems] lt
    by (simp add: atr_loop_step upt_conv_Cons)
qed

lemma take_true_ranges:
  "period < length klines \<Longrightarrow>
   take period (true_ranges klines) = map (true_range klines) [1..<Suc period]"
  by (simp add: true_ranges_def take_map take_upt del: upt_Suc)

lemma drop_true_ranges:
  "drop period (true_ranges klines) = map (true_range klines) [Suc period..<length klines]"
  by (simp add: true_ranges_def drop_map drop_upt del: upt_Suc)

lemma calculateATR_eq: "calculateATR klines period = Some (ATR_spec klines period)"
proof (cases "length klines \<le> period")
  case True
  then show ?thesis by (simp add: calculateATR_def ATR_spec_def)
next
  case False
  obtain r where r: "atr_trs klines 1 (replicate (length klines) 0) = Some r"
    and len: "length r = length klines"
    and nth: "\<forall>j < length klines. r ! j = (if 1 \<le> j then true_range klines j else 0)"
    using atr_trs_eq [of 1 "replicate (length klines) 0" klines] by auto
  have m: "map (\<lambda>j. r ! j) [a..<b] = map (true_range klines) [a..<b]"
    if "1 \<le> a" "b \<le> length klines" for a b
    using that nth by (auto simp del: upt_Suc)
  have s: "atr_sum r period 1 0 =
      Some (sum_list (map (true_range klines) [1..<Suc period]))"
    using False by (simp add: atr_sum_eq len m del: upt_Suc One_nat_def)
  have l: "atr_loop r (length klines) period (period + 1) atr =
      Some (foldl (wilder period) atr (map (true_range klines) [Suc period..<length klines]))"
    for atr
    by (simp add: atr_loop_eq len m del: upt_Suc)
  show ?thesis
    using False
    by (simp add: calculateATR_def ATR_spec_def r s l take_true_ranges drop_true_ranges
        del: upt_Suc One_nat_def)
qed

subsection \<open>Bounds of the Wilder averages\<close>










subsection \<open>The series loops\<close>

lemma intraday_loop_step:
  "i < length klines \<Longrightarrow>
   intraday_loop klines i data =
   intraday_loop klines (Suc i)
     (data\<lparr>MidPrices := MidPrices data @ [Close (klines ! i)],
           EMA20Values := EMA20Values data @
             (if 19 \<le> i then [EMA_spec (map Close (take (Suc i) klines)) 20] else []),
           MACDValues := MACDValues data @
             (if 25 \<le> i then [MACD_spec (map Close (take (Suc i) klines))] else []),
           RSI7Values := RSI7Values data @
             (if 7 \<le> i then [RSI_spec (map Close (take (Suc i) klines)) 7] else []),
           RSI14Values := RSI14Values data @
             (if 14 \<le> i then [RSI_spec (map Close (take (Suc i) klines)) 14] else [])\<rparr>)"
  by (subst intraday_loop.simps)
    (simp add: Let_def item_at_nat slice_to_Suc calculateEMA_eq calculateMACD_eq
      calculateRSI_eq)

lemma intraday_loop_stop:
  "\<not> i < length klines \<Longrightarrow> intraday_loop klines i data = Some data"
  by (subst intraday_loop.simps) simp

lemma intraday_loop_eq:
  "intraday_loop klines i data =
   Some (data\<lparr>MidPrices := MidPrices data @ map (\<lambda>j. Close (klines ! j)) [i..<length klines],
         EMA20Values := EMA20Values data @
           map (\<lambda>j. EMA_spec (map Close (take (Suc j) klines)) 20)
             (filter (\<lambda>j. 19 \<le> j) [i..<length klines]),
         MACDValues := MACDValues data @
           map (\<lambda>j. MACD_spec (map Close (take (Suc j) klines)))
             (filter (\<lambda>j. 25 \<le> j) [i..<length klines]),
         RSI7Values := RSI7Values data @
           map (\<lambda>j. RSI_spec (map Close (take (Suc j) klines)) 7)
             (filter (\<lambda>j. 7 \<le> j) [i..<length klines]),
         RSI14Values := RSI14Values data @
           map (\<lambda>j. RSI_spec (map Close (take (Suc j) klines)) 14)
             (filter (\<lambda>j. 14 \<le> j) [i..<length klines])\<rparr>)"
proof (induction "length klines - i" arbitrary: i data)
  case 0
  then show ?case by (simp add: intraday_loop_stop)
next
  case (Suc n)
  then have lt: "i < length klines" and n: "n = length klines - Suc i" by simp_all
  have u: "[i..<length klines] = i # [Suc i..<length klines]"
    using lt by (simp add: upt_conv_Cons)
  show ?case
    by (simp add: intraday_loop_step [OF lt] Suc.hyps(1) [OF n] u)
qed

lemma series_start_window: "[series_start klines..<length klines] = trailing_window (length klines)"
  by (simp add: series_start_def trailing_window_def Let_def max_def)

lemma calculateIntradaySeries_eq:
  "calculateIntradaySeries klines = Some (intraday_series_spec klines)"
  by (simp add: calculateIntradaySeries_def intraday_loop_eq series_start_window
      sampled_series_def intraday_series_spec_def)

lemma longer_loop_step:
  "i < length klines \<Longrightarrow>
   longer_loop klines i data =
   longer_loop klines (Suc i)
     (data\<lparr>LT_MACDValues := LT_MACDValues data @
             (if 25 \<le> i then [MACD_spec (map Close (take (Suc i) klines))] else []),
           LT_RSI14Values := LT_RSI14Values data @
             (if 14 \<le> i then [RSI_spec (map Close (take (Suc i) klines)) 14] else [])\<rparr>)"
  by (subst longer_loop.simps)
    (simp add: Let_def slice_to_Suc calculateMACD_eq calculateRSI_eq)

lemma longer_loop_stop: "\<not> i < length klines \<Longrightarrow> longer_loop klines i data = Some data"
  by (subst longer_loop.simps) simp

lemma longer_loop_eq:
  "longer_loop klines i data =
   Some (data\<lparr>LT_MACDValues := LT_MACDValues data @
           map (\<lambda>j. MACD_spec (map Close (take (Suc j) klines)))
             (filter (\<lambda>j. 25 \<le> j) [i..<length klines]),
         LT_RSI14Values := LT_RSI14Values data @
           map (\<lambda>j. RSI_spec (map Close (take (Suc j) klines)) 14)
             (filter (\<lambda>j. 14 \<le> j) [i..<length klines])\<rparr>)"
proof (induction "length klines - i" arbitrary: i data)
  case 0
  then show ?case by (simp add: longer_loop_stop)
next
  case (Suc n)
  then have lt: "i < length klines" and n: "n = length klines - Suc i" by simp_all
  have u: "[i..<length klines] = i # [Suc i..<length klines]"
    using lt by (simp add: upt_conv_Cons)
  show ?case
    by (simp add: longer_loop_step [OF lt] Suc.hyps(1) [OF n] u)
qed

lemma foldl_volume: "foldl (\<lambda>sm k. sm + Volume k) a klines = a + sum_list (map Volume klines)"
  by (induction klines arbitrary: a) simp_all

lemma calculateLongerTermData_eq:
  "calculateLongerTermData klines = Some (longer_term_spec klines)"
proof (cases "klines = []")
  case True
  then show ?thesis
    by (simp add: calculateLongerTermData_def longer_term_spec_def calculateEMA_eq
        calculateATR_eq longer_loop_stop sampled_series_def trailing_window_def)
next
  case False
  then have l: "item_at klines (int (length klines) - 1) = Some (last klines)"
    by (simp add: item_at_last last_conv_nth)
  show ?thesis
    using False
    by (simp add: calculateLongerTermData_def longer_term_spec_def calculateEMA_eq
        calculateATR_eq longer_loop_eq series_start_window sampled_series_def l foldl_volume)
qed

lemma trailing_window_upt: "trailing_window N = [N - 10..<N]"
  by (simp add: trailing_window_def max_def nat_diff_distrib')

lemma trailing_window_length: "length (trailing_window N) = min 10 N"
  by (simp add: trailing_window_upt)

lemma trailing_window_less: "i \<in> set (trailing_window N) \<Longrightarrow> i < N"
  by (simp add: trailing_window_upt)

lemma mid_prices_window:
  "map (\<lambda>i. Close (klines ! i)) (trailing_window (length klines)) =
   map Close (drop (length klines - 10) klines)"
  by (simp add: trailing_window_upt map_nth_upt_drop drop_map)

lemma sampled_series_five:
  "length klines = 5 \<Longrightarrow> sampled_series f 19 klines = []"
  by (simp add: sampled_series_def trailing_window_upt filter_empty_conv)


subsection \<open>Normalize\<close>










lemma Normalize_examples:
  "Normalize ''btc'' = ''BTCUSDT''" "Normalize ''ethusdt'' = ''ETHUSDT''"
  "Normalize ''BTCUSDT'' = ''BTCUSDT''"
  by code_simp+

subsection \<open>GetWithInterval\<close>

lemma go_quo_pos: "0 \<le> a \<Longrightarrow> 1 \<le> b \<Longrightarrow> go_quo a b = Some (a div b)"
  by (simp add: go_quo_def sgn_if)

lemma calculateIntradayLimit_None: "calculateIntradayLimit scan = None \<longleftrightarrow> scan = 0"
  by (simp add: calculateIntradayLimit_def go_quo_def)

lemma priceChange1h_of_eq:
  assumes "1 \<le> scan" and "klines \<noteq> []"
  shows "priceChange1h_of klines (Close (klines ! (length klines - 1))) scan =
         Inr (priceChange1h_spec klines scan)"
proof -
  define k where "k = nat (60 div scan)"
  have q: "go_quo 60 scan = Some (int k)"
    using assms(1) by (simp add: go_quo_pos k_def pos_imp_zdiv_nonneg_iff)
  show ?thesis
  proof (cases "k + 1 \<le> length klines")
    case True
    then have e: "int (length klines) - int k - 1 = int (length klines - 1 - k)"
      by simp
    have idx: "item_at klines (int (length klines) - int k - 1) =
        Some (klines ! (length klines - 1 - k))"
      unfolding e by (rule item_at_nat) (use True in simp)
    show ?thesis
      using True
      by (simp add: priceChange1h_of_def q priceChange1h_spec_def k_def [symmetric] Let_def idx)
  next
    case False
    then show ?thesis
      by (simp add: priceChange1h_of_def q priceChange1h_spec_def k_def [symmetric] Let_def)
  qed
qed

lemma priceChange4h_of_eq:
  "priceChange4h_of klines4h currentPrice = Some (priceChange4h_against klines4h currentPrice)"
proof (cases "2 \<le> length klines4h")
  case True
  then have e: "int (length klines4h) - 2 = int (length klines4h - 2)"
    by simp
  have "item_at klines4h (int (length klines4h) - 2) =
      Some (klines4h ! (length klines4h - 2))"
    unfolding e by (rule item_at_nat) (use True in simp)
  then show ?thesis
    using True by (simp add: priceChange4h_of_def priceChange4h_against_def Let_def)
next
  case False
  then show ?thesis
    by (simp add: priceChange4h_of_def priceChange4h_against_def Let_def)
qed

lemma GetWithInterval_fetched:
  assumes "calculateIntradayLimit scan = Some limit"
    and "getKlines p (Normalize symbol) (selectInterval scan) limit = Inr klinesIntraday"
    and "getKlines p (Normalize symbol) ''4h'' 60 = Inr klines4h"
  shows "GetWithInterval p symbol scan =
     (if klinesIntraday = [] then Panicked IndexOutOfRange
      else case priceChange1h_of klinesIntraday
                  (Close (klinesIntraday ! (length klinesIntraday - 1))) scan of
             Inl pn \<Rightarrow> Panicked pn
           | Inr priceChange1h \<Rightarrow>
               Returned \<lparr>Symbol = Normalize symbol,
                 CurrentPrice = Close (klinesIntraday ! (length klinesIntraday - 1)),
                 PriceChange1h = priceChange1h,
                 PriceChange4h = priceChange4h_against klines4h
                   (Close (klinesIntraday ! (length klinesIntraday - 1))),
                 CurrentEMA20 = EMA_spec (map Close klinesIntraday) 20,
                 CurrentMACD = MACD_spec (map Close klinesIntraday),
                 CurrentRSI7 = RSI_spec (map Close klinesIntraday) 7,
                 OpenInterest = (case getOpenInterestData p (Normalize symbol) of
                                   Inl err \<Rightarrow> \<lparr>Latest = 0, Average = 0\<rparr>
                                 | Inr d \<Rightarrow> d),
                 FundingRate = fst (getFundingRate p (Normalize symbol)),
                 IntradaySeries = (intraday_series_spec klinesIntraday)
                   \<lparr>Interval := selectInterval scan\<rparr>,
                 LongerTermContext = longer_term_spec klines4h\<rparr>)"
proof (cases "klinesIntraday = []")
  case True
  then show ?thesis
    using assms by (simp add: GetWithInterval_def Let_def item_at_Nil)
next
  case False
  then have l: "item_at klinesIntraday (int (length klinesIntraday) - 1) =
      Some (klinesIntraday ! (length klinesIntraday - 1))"
    by (rule item_at_last)
  show ?thesis
    using assms False
    by (simp add: GetWithInterval_def Let_def l calculateEMA_eq calculateMACD_eq
        calculateRSI_eq priceChange4h_of_eq calculateIntradaySeries_eq
        calculateLongerTermData_eq split: sum.split)
qed

lemma GetWithInterval_returns:
  assumes "1 \<le> scan"
    and "calculateIntradayLimit scan = Some limit"
    and "getKlines p (Normalize symbol) (selectInterval scan) limit = Inr klinesIntraday"
    and "getKlines p (Normalize symbol) ''4h'' 60 = Inr klines4h"
    and "klinesIntraday \<noteq> []"
  shows "GetWithInterval p symbol scan =
     Returned \<lparr>Symbol = Normalize symbol,
       CurrentPrice = Close (klinesIntraday ! (length klinesIntraday - 1)),
       PriceChange1h = priceChange1h_spec klinesIntraday scan,
       PriceChange4h = priceChange4h_against klines4h
         (Close (klinesIntraday ! (length klinesIntraday - 1))),
       CurrentEMA20 = EMA_spec (map Close klinesIntraday) 20,
       CurrentMACD = MACD_spec (map Close klinesIntraday),
       CurrentRSI7 = RSI_spec (map Close klinesIntraday) 7,
       OpenInterest = (case getOpenInterestData p (Normalize symbol) of
                         Inl err \<Rightarrow> \<lparr>Latest = 0, Average = 0\<rparr>
                       | Inr d \<Rightarrow> d),
       FundingRate = fst (getFundingRate p (Normalize symbol)),
       IntradaySeries = (intraday_series_spec klinesIntraday)
         \<lparr>Interval := selectInterval scan\<rparr>,
       LongerTermContext = longer_term_spec klines4h\<rparr>"
  by (subst GetWithInterval_fetched [OF assms(2,3,4)],
      subst priceChange1h_of_eq [OF assms(1,5)]) (simp add: assms(5))

lemma longer_term_spec_Nil: "longer_term_spec [] = zero_context"
  by (simp add: longer_term_spec_def zero_context_def EMA_spec_def ATR_spec_def
      sampled_series_def trailing_window_def)

lemma priceChange4h_against_Nil: "priceChange4h_against [] c = 0"
  by (simp add: priceChange4h_against_def)

subsection \<open>The test providers\<close>

lemma getKlines_fixed:
  "getKlines (fixed_provider intraday fourHour oi rate) symbol interval limit =
     (if interval = ''4h'' then fourHour else intraday)"
  by (simp add: getKlines_def fixed_provider_def)

lemma selectInterval_3: "selectInterval 3 = ''3m''"
  by (simp add: selectInterval_def)

lemma calculateIntradayLimit_3: "calculateIntradayLimit 3 = Some 40"
  by (simp add: calculateIntradayLimit_def go_quo_def)

lemma hour_candles_facts:
  "length hour_candles = 21" "hour_candles \<noteq> []"
  "Close (hour_candles ! 20) = 110" "Close (hour_candles ! 0) = 100"
  by (simp_all add: hour_candles_def flat_candles_def candle_def nth_append)

lemma two_4h_candles_facts:
  "length two_4h_candles = 2" "Close (two_4h_candles ! 0) = 100"
  "Close (two_4h_candles ! Suc 0) = 120"
  by (simp_all add: two_4h_candles_def candle_def)

lemma good_provider_fetches:
  "getKlines good_provider symbol (selectInterval 3) 40 = Inr hour_candles"
  "getKlines good_provider symbol ''4h'' 60 = Inr two_4h_candles"
  by (simp_all add: good_provider_def getKlines_fixed selectInterval_3)

subsection \<open>Failing fetches\<close>

lemma GetWithInterval_Failed_iff:
  assumes "calculateIntradayLimit scan = Some limit"
  shows "(\<exists>e. GetWithInterval p symbol scan = Failed e) \<longleftrightarrow>
     (isl (getKlines p (Normalize symbol) (selectInterval scan) limit) \<or>
      isl (getKlines p (Normalize symbol) ''4h'' 60))"
proof (cases "getKlines p (Normalize symbol) (selectInterval scan) limit")
  case (Inl err)
  then show ?thesis
    using assms by (simp add: GetWithInterval_def Let_def)
next
  case i: (Inr klinesIntraday)
  show ?thesis
  proof (cases "getKlines p (Normalize symbol) ''4h'' 60")
    case (Inl err)
    then show ?thesis
      using assms i by (simp add: GetWithInterval_def Let_def)
  next
    case (Inr klines4h)
    then show ?thesis
      using i by (simp add: GetWithInterval_fetched [OF assms i Inr] split: sum.split)
  qed
qed

lemma GetWithInterval_intraday_error:
  assumes "calculateIntradayLimit scan = Some limit"
    and "getKlines p (Normalize symbol) (selectInterval scan) limit = Inl err"
  shows "GetWithInterval p symbol scan = Failed (KlinesError (selectInterval scan) err)"
  using assms by (simp add: GetWithInterval_def Let_def)

lemma GetWithInterval_4h_error:
  assumes "calculateIntradayLimit scan = Some limit"
    and "getKlines p (Normalize symbol) (selectInterval scan) limit = Inr klinesIntraday"
    and "getKlines p (Normalize symbol) ''4h'' 60 = Inl err"
  shows "GetWithInterval p symbol scan = Failed (Klines4hError err)"
  using assms by (simp add: GetWithInterval_def Let_def)

lemma GetWithInterval_oi_failure:
  assumes "openInterestResponse p (Normalize symbol) = Inl e"
  shows "GetWithInterval p symbol scan =
   map_result (\<lambda>d. d\<lparr>OpenInterest := \<lparr>Latest = 0, Average = 0\<rparr>\<rparr>)
     (GetWithInterval (p\<lparr>openInterestResponse := \<lambda>symbol. Inr oi\<rparr>) symbol scan)"
  using assms
  by (simp add: GetWithInterval_def Let_def getKlines_def getOpenInterestData_def
      getFundingRate_def calculateEMA_eq calculateMACD_eq calculateRSI_eq
      priceChange4h_of_eq calculateIntradaySeries_eq calculateLongerTermData_eq
      split: option.split sum.split)

lemma GetWithInterval_funding_failure:
  assumes "fundingRateResponse p (Normalize symbol) = Inl e"
  shows "GetWithInterval p symbol scan =
   map_result (\<lambda>d. d\<lparr>FundingRate := 0\<rparr>)
     (GetWithInterval (p\<lparr>fundingRateResponse := \<lambda>symbol. Inr rate\<rparr>) symbol scan)"
  using assms
  by (simp add: GetWithInterval_def Let_def getKlines_def getOpenInterestData_def
      getFundingRate_def calculateEMA_eq calculateMACD_eq calculateRSI_eq
      priceChange4h_of_eq calculateIntradaySeries_eq calculateLongerTermData_eq
      split: option.split sum.split)

lemma GetWithInterval_oi_default:
  assumes "1 \<le> scan"
    and "calculateIntradayLimit scan = Some limit"
    and "getKlines p (Normalize symbol) (selectInterval scan) limit = Inr klinesIntraday"
    and "getKlines p (Normalize symbol) ''4h'' 60 = Inr klines4h"
    and "klinesIntraday \<noteq> []"
    and "openInterestResponse p (Normalize symbol) = Inl e"
  shows "map_result OpenInterest (GetWithInterval p symbol scan) =
         Returned \<lparr>Latest = 0, Average = 0\<rparr>"
  by (simp add: GetWithInterval_returns [OF assms(1-5)] getOpenInterestData_def assms(6))

lemma GetWithInterval_funding_default:
  assumes "1 \<le> scan"
    and "calculateIntradayLimit scan = Some limit"
    and "getKlines p (Normalize symbol) (selectInterval scan) limit = Inr klinesIntraday"
    and "getKlines p (Normalize symbol) ''4h'' 60 = Inr klines4h"
    and "klinesIntraday \<noteq> []"
    and "fundingRateResponse p (Normalize symbol) = Inl e"
  shows "map_result FundingRate (GetWithInterval p symbol scan) = Returned 0"
  by (simp add: GetWithInterval_returns [OF assms(1-5)] getFundingRate_def assms(6))

lemma failing_provider_fetches:
  "getKlines no_intraday_provider symbol ''3m'' 40 = Inl ''timeout''"
  "getKlines no_4h_provider symbol ''3m'' 40 = Inr hour_candles"
  "getKlines no_4h_provider symbol ''4h'' 60 = Inl ''timeout''"
  "getKlines no_oi_provider symbol ''3m'' 40 = Inr hour_candles"
  "getKlines no_oi_provider symbol ''4h'' 60 = Inr two_4h_candles"
  "getKlines empty_4h_provider symbol ''3m'' 40 = Inr hour_candles"
  "getKlines empty_4h_provider symbol ''4h'' 60 = Inr []"
  "getKlines empty_intraday_provider symbol ''3m'' 40 = Inr []"
  "getKlines empty_intraday_provider symbol ''4h'' 60 = Inr two_4h_candles"
  by (simp_all add: no_intraday_provider_def no_4h_provider_def no_oi_provider_def
      empty_4h_provider_def empty_intraday_provider_def getKlines_fixed)

lemma no_oi_provider_responses:
  "openInterestResponse no_oi_provider symbol = Inl ''timeout''"
  "fundingRateResponse no_oi_provider symbol = Inl ''timeout''"
  by (simp_all add: no_oi_provider_def fixed_provider_def)

section \<open>The claims\<close>

text \<open>
  C2. For a positive period, \<open>calculateEMA\<close> returns 0 when the sequence has fewer than
  \<open>period\<close> candles; otherwise it returns the value obtained by seeding with the simple
  average of the first \<open>period\<close> closes and applying
  \<open>ema = (close - ema) * (2/(period+1)) + ema\<close> once for each candle from index
  \<open>period\<close> to the last, in chronological order. No index is out of range.
\<close>

theorem calculateEMA_seeded_recurrence:
  "0 < period \<Longrightarrow>
   calculateEMA klines period =
     Some (if length klines < period then 0
           else foldl (ema_step period)
                  (sum_list (take period (map Close klines)) / real period)
                  (drop period (map Close klines)))"
  by (simp add: calculateEMA_eq EMA_spec_def)

text \<open>
  The witness: 30 candles closing at 1 to 30, period 20. The seed is 10.5, the
  recurrence runs over the closes 21 to 30 (the indices 20 to 29) and ends at 20.5.
\<close>

theorem calculateEMA_seeded_recurrence_witness:
  "0 < (20::nat) \<and>
   \<not> length (rising_candles 30) < 20 \<and>
   sum_list (take 20 (map Close (rising_candles 30))) / real 20 = 10.5 \<and>
   drop 20 (map Close (rising_candles 30)) = [21, 22, 23, 24, 25, 26, 27, 28, 29, 30] \<and>
   calculateEMA (rising_candles 30) 20 =
     Some (foldl (ema_step 20) 10.5 [21, 22, 23, 24, 25, 26, 27, 28, 29, 30]) \<and>
   calculateEMA (rising_candles 30) 20 = Some 20.5"
  using calculateEMA_seeded_recurrence [of 20 "rising_candles 30"]
  by (simp add: rising_candles_def candle_def upt_rec ema_step_def)

text \<open>
  C5. For a sequence of at least 26 candles, \<open>calculateMACD\<close> returns the 12-period
  \<open>calculateEMA\<close> minus the 26-period \<open>calculateEMA\<close>, both over the same full
  sequence; for a shorter sequence it returns 0.
\<close>

theorem calculateMACD_difference_of_EMAs:
  "(26 \<le> length klines \<longrightarrow>
      (\<exists>ema12 ema26. calculateEMA klines 12 = Some ema12 \<and>
         calculateEMA klines 26 = Some ema26 \<and>
         calculateMACD klines = Some (ema12 - ema26))) \<and>
   (length klines < 26 \<longrightarrow> calculateMACD klines = Some 0)"
  by (simp add: calculateMACD_def calculateEMA_eq)

text \<open>
  The witness: on 30 rising candles the MACD is \<open>24.5 - 17.5\<close>; on 12 rising candles
  the 12-period EMA is 6.5 and the MACD is 0.
\<close>

theorem calculateMACD_difference_of_EMAs_witness:
  "26 \<le> length (rising_candles 30) \<and>
   calculateEMA (rising_candles 30) 12 = Some 24.5 \<and>
   calculateEMA (rising_candles 30) 26 = Some 17.5 \<and>
   calculateMACD (rising_candles 30) = Some 7 \<and>
   length (rising_candles 12) < 26 \<and>
   calculateEMA (rising_candles 12) 12 = Some 6.5 \<and>
   calculateMACD (rising_candles 12) = Some 0"
proof -
  have e12: "calculateEMA (rising_candles 30) 12 = Some 24.5"
    by (simp add: calculateEMA_eq EMA_spec_def rising_candles_def candle_def upt_rec ema_step_def)
  have e26: "calculateEMA (rising_candles 30) 26 = Some 17.5"
    by (simp add: calculateEMA_eq EMA_spec_def rising_candles_def candle_def upt_rec ema_step_def)
  have e: "calculateEMA (rising_candles 12) 12 = Some 6.5"
    by (simp add: calculateEMA_eq EMA_spec_def rising_candles_def candle_def upt_rec ema_step_def)
  have l30: "length (rising_candles 30) = 30" and l12: "length (rising_candles 12) = 12"
    by (simp_all add: rising_candles_def)
  obtain a b where ab: "calculateEMA (rising_candles 30) 12 = Some a"
      "calculateEMA (rising_candles 30) 26 = Some b"
      "calculateMACD (rising_candles 30) = Some (a - b)"
    using calculateMACD_difference_of_EMAs [of "rising_candles 30"] l30 by auto
  have "a = 24.5" "b = 17.5"
    using ab e12 e26 by simp_all
  then have m30: "calculateMACD (rising_candles 30) = Some 7"
    using ab(3) by simp
  have m12: "calculateMACD (rising_candles 12) = Some 0"
    using calculateMACD_difference_of_EMAs [of "rising_candles 12"] l12 by simp
  show ?thesis
    by (simp add: e12 e26 e l30 l12 m30 m12)
qed



text \<open>
  C4. For a positive period, \<open>calculateATR\<close> returns 0 when the sequence has at most
  \<open>period\<close> candles; otherwise it returns the average of the true ranges
  \<open>max(high-low, |high-prevClose|, |low-prevClose|)\<close> at the positions 1 to \<open>period\<close>
  (the first candle has none), followed by the Wilder recurrence
  \<open>atr = (atr*(period-1) + tr)/period\<close> for each remaining candle. No index is out of
  range.
\<close>

theorem calculateATR_wilder:
  "0 < period \<Longrightarrow>
   calculateATR klines period =
     Some (if length klines \<le> period then 0
           else foldl (wilder period)
                  (sum_list (map (true_range klines) [1..<Suc period]) / real period)
                  (map (true_range klines) [Suc period..<length klines]))"
  by (simp add: calculateATR_eq ATR_spec_def take_true_ranges drop_true_ranges del: upt_Suc)

text \<open>
  The witness: 15 candles with high, low and close at 100 have the 14-period ATR 0; the
  closes 1, 2, 1, 3 (high and low at the close) have the true ranges 1, 1, 2 and the
  2-period ATR \<open>(1 * 1 + 2) / 2\<close>.
\<close>

theorem calculateATR_wilder_witness:
  "0 < (14::nat) \<and> \<not> length (flat_candles 15 100) \<le> 14 \<and>
   calculateATR (flat_candles 15 100) 14 = Some 0 \<and>
   0 < (2::nat) \<and> map (true_range zigzag) [1..<4] = [1, 1, 2] \<and>
   calculateATR zigzag 2 = Some (3 / 2) \<and>
   calculateATR (flat_candles 14 100) 14 = Some 0"
proof -
  have f: "flat_candles 15 100 ! i = candle 100" if "i < 15" for i
    using that by (simp add: flat_candles_def)
  have t: "true_range (flat_candles 15 100) i = 0" if "1 \<le> i" "i < 15" for i
    using that by (simp add: true_range_def f candle_def)
  have m: "map (true_range (flat_candles 15 100)) [a..<b] = replicate (b - a) 0"
    if "1 \<le> a" "b \<le> 15" for a b
    using that by (auto simp: list_eq_iff_nth_eq t)
  have len: "length (flat_candles 15 100) = 15"
    by (simp add: flat_candles_def)
  have flat: "calculateATR (flat_candles 15 100) 14 = Some 0"
    using calculateATR_wilder [of 14 "flat_candles 15 100"]
    by (simp add: m len wilder_def sum_list_replicate del: upt_Suc)
  have z: "map (true_range zigzag) [1..<4] = [1, 1, 2]"
    by (simp add: true_range_def zigzag_def candle_def upt_rec)
  have zz: "calculateATR zigzag 2 = Some (3 / 2)"
    using calculateATR_wilder [of 2 zigzag]
    by (simp add: true_range_def zigzag_def candle_def upt_rec wilder_def)
  have short: "calculateATR (flat_candles 14 100) 14 = Some 0"
    using calculateATR_wilder [of 14 "flat_candles 14 100"]
    by (simp add: flat_candles_def)
  show ?thesis
    using flat z zz short by (simp add: flat_candles_def)
qed

text \<open>
  C6. For a sequence of \<open>N\<close> candles, \<open>calculateIntradaySeries\<close> returns, and each
  trailing series is built over the candle indices \<open>i\<close> of \<open>[max(0, N-10), N-1]\<close>, in
  order, with the indicator recomputed over the prefix \<open>[0..i]\<close> and appended only from
  the indicator's threshold on (EMA20 from 19, MACD from 25, RSI7 from 7, RSI14 from 14).
  A prefix that passes the threshold also passes the indicator's own guard, so no
  fail-closed zero enters a series; five candles give an empty EMA20 series; the
  mid-price series holds the \<open>min(10, N)\<close> closes of the window, with no threshold.
\<close>

theorem calculateIntradaySeries_sampled:
  "\<exists>d. calculateIntradaySeries klines = Some d \<and>
     MidPrices d = map (\<lambda>i. Close (klines ! i)) (trailing_window (length klines)) \<and>
     map Some (EMA20Values d) =
       map (\<lambda>i. calculateEMA (take (i + 1) klines) 20)
         (filter (\<lambda>i. 19 \<le> i) (trailing_window (length klines))) \<and>
     map Some (MACDValues d) =
       map (\<lambda>i. calculateMACD (take (i + 1) klines))
         (filter (\<lambda>i. 25 \<le> i) (trailing_window (length klines))) \<and>
     map Some (RSI7Values d) =
       map (\<lambda>i. calculateRSI (take (i + 1) klines) 7)
         (filter (\<lambda>i. 7 \<le> i) (trailing_window (length klines))) \<and>
     map Some (RSI14Values d) =
       map (\<lambda>i. calculateRSI (take (i + 1) klines) 14)
         (filter (\<lambda>i. 14 \<le> i) (trailing_window (length klines))) \<and>
     Interval d = [] \<and>
     (\<forall>i\<in>set (trailing_window (length klines)).
        (19 \<le> i \<longrightarrow> \<not> length (take (i + 1) klines) < 20) \<and>
        (25 \<le> i \<longrightarrow> \<not> length (take (i + 1) klines) < 26) \<and>
        (7 \<le> i \<longrightarrow> \<not> length (take (i + 1) klines) \<le> 7) \<and>
        (14 \<le> i \<longrightarrow> \<not> length (take (i + 1) klines) \<le> 14)) \<and>
     (length klines = 5 \<longrightarrow> EMA20Values d = []) \<and>
     MidPrices d = map Close (drop (length klines - 10) klines) \<and>
     length (MidPrices d) = min 10 (length klines)"
proof (intro exI conjI ballI impI)
  show "calculateIntradaySeries klines = Some (intraday_series_spec klines)"
    by (rule calculateIntradaySeries_eq)
next
  show "MidPrices (intraday_series_spec klines) =
      map (\<lambda>i. Close (klines ! i)) (trailing_window (length klines))"
    by (simp add: intraday_series_spec_def)
next
  show "map Some (EMA20Values (intraday_series_spec klines)) =
       map (\<lambda>i. calculateEMA (take (i + 1) klines) 20)
         (filter (\<lambda>i. 19 \<le> i) (trailing_window (length klines)))"
    by (simp add: intraday_series_spec_def sampled_series_def calculateEMA_eq o_def)
next
  show "map Some (MACDValues (intraday_series_spec klines)) =
       map (\<lambda>i. calculateMACD (take (i + 1) klines))
         (filter (\<lambda>i. 25 \<le> i) (trailing_window (length klines)))"
    by (simp add: intraday_series_spec_def sampled_series_def calculateMACD_eq o_def)
next
  show "map Some (RSI7Values (intraday_series_spec klines)) =
       map (\<lambda>i. calculateRSI (take (i + 1) klines) 7)
         (filter (\<lambda>i. 7 \<le> i) (trailing_window (length klines)))"
    by (simp add: intraday_series_spec_def sampled_series_def calculateRSI_eq o_def)
next
  show "map Some (RSI14Values (intraday_series_spec klines)) =
       map (\<lambda>i. calculateRSI (take (i + 1) klines) 14)
         (filter (\<lambda>i. 14 \<le> i) (trailing_window (length klines)))"
    by (simp add: intraday_series_spec_def sampled_series_def calculateRSI_eq o_def)
next
  show "Interval (intraday_series_spec klines) = []"
    by (simp add: intraday_series_spec_def)
next
  fix i assume "i \<in> set (trailing_window (length klines))" and "19 \<le> i"
  then show "\<not> length (take (i + 1) klines) < 20"
    using trailing_window_less [of i "length klines"] by simp
next
  fix i assume "i \<in> set (trailing_window (length klines))" and "25 \<le> i"
  then show "\<not> length (take (i + 1) klines) < 26"
    using trailing_window_less [of i "length klines"] by simp
next
  fix i assume "i \<in> set (trailing_window (length klines))" and "7 \<le> i"
  then show "\<not> length (take (i + 1) klines) \<le> 7"
    using trailing_window_less [of i "length klines"] by simp
next
  fix i assume "i \<in> set (trailing_window (length klines))" and "14 \<le> i"
  then show "\<not> length (take (i + 1) klines) \<le> 14"
    using trailing_window_less [of i "length klines"] by simp
next
  assume "length klines = 5"
  then show "EMA20Values (intraday_series_spec klines) = []"
    by (simp add: intraday_series_spec_def sampled_series_five)
next
  show "MidPrices (intraday_series_spec klines) =
      map Close (drop (length klines - 10) klines)"
    by (simp add: intraday_series_spec_def mid_prices_window)
next
  show "length (MidPrices (intraday_series_spec klines)) = min 10 (length klines)"
    by (simp add: intraday_series_spec_def trailing_window_length)
qed

text \<open>
  The witness. Five rising candles: the window is the indices 0 to 4, the mid prices are
  the five closes and the four indicator series are empty. Twenty rising candles: the
  window is the indices 10 to 19, the mid prices are the closes 11 to 20, the EMA20
  series has the one point of index 19 (the average 10.5 of all twenty closes), the MACD
  series is empty, the RSI7 series has ten points and the RSI14 series the six points of
  the indices 14 to 19.
\<close>

theorem calculateIntradaySeries_sampled_witness:
  "trailing_window (length (rising_candles 5)) = [0, 1, 2, 3, 4] \<and>
   map_option MidPrices (calculateIntradaySeries (rising_candles 5)) = Some [1, 2, 3, 4, 5] \<and>
   map_option EMA20Values (calculateIntradaySeries (rising_candles 5)) = Some [] \<and>
   map_option MACDValues (calculateIntradaySeries (rising_candles 5)) = Some [] \<and>
   map_option RSI7Values (calculateIntradaySeries (rising_candles 5)) = Some [] \<and>
   map_option RSI14Values (calculateIntradaySeries (rising_candles 5)) = Some [] \<and>
   trailing_window (length (rising_candles 20)) = [10, 11, 12, 13, 14, 15, 16, 17, 18, 19] \<and>
   map_option MidPrices (calculateIntradaySeries (rising_candles 20)) =
     Some [11, 12, 13, 14, 15, 16, 17, 18, 19, 20] \<and>
   map_option EMA20Values (calculateIntradaySeries (rising_candles 20)) = Some [10.5] \<and>
   \<not> length (take (19 + 1) (rising_candles 20)) < 20 \<and>
   map_option MACDValues (calculateIntradaySeries (rising_candles 20)) = Some [] \<and>
   map_option (\<lambda>d. length (RSI7Values d)) (calculateIntradaySeries (rising_candles 20)) =
     Some 10 \<and>
   map_option (\<lambda>d. length (RSI14Values d)) (calculateIntradaySeries (rising_candles 20)) =
     Some 6"
proof -
  have l: "length (rising_candles 5) = 5" "length (rising_candles 20) = 20"
    by (simp_all add: rising_candles_def)
  have w: "trailing_window 5 = [0, 1, 2, 3, 4]"
    "trailing_window 20 = [10, 11, 12, 13, 14, 15, 16, 17, 18, 19]"
    by (simp_all add: trailing_window_upt upt_rec)
  have c5: "map Close (rising_candles 5) = [1, 2, 3, 4, 5]"
    by (simp add: rising_candles_def candle_def upt_rec)
  have c20: "map Close (rising_candles 20) =
      [1, 2, 3, 4, 5, 6, 7, 8, 9, 10, 11, 12, 13, 14, 15, 16, 17, 18, 19, 20]"
    by (simp add: rising_candles_def candle_def upt_rec)
  have m20: "map Close (drop (20 - 10) (rising_candles 20)) =
      [11, 12, 13, 14, 15, 16, 17, 18, 19, 20]"
    by (simp add: drop_map [symmetric] c20)
  have e: "calculateEMA (rising_candles 20) 20 = Some 10.5"
    by (simp add: calculateEMA_eq EMA_spec_def c20 ema_step_def)
  obtain d5 where d5: "calculateIntradaySeries (rising_candles 5) = Some d5"
    and mid5: "MidPrices d5 = map Close (drop (length (rising_candles 5) - 10) (rising_candles 5))"
    and ema5: "map Some (EMA20Values d5) =
       map (\<lambda>i. calculateEMA (take (i + 1) (rising_candles 5)) 20)
         (filter (\<lambda>i. 19 \<le> i) (trailing_window (length (rising_candles 5))))"
    and macd5: "map Some (MACDValues d5) =
       map (\<lambda>i. calculateMACD (take (i + 1) (rising_candles 5)))
         (filter (\<lambda>i. 25 \<le> i) (trailing_window (length (rising_candles 5))))"
    and rsi7_5: "map Some (RSI7Values d5) =
       map (\<lambda>i. calculateRSI (take (i + 1) (rising_candles 5)) 7)
         (filter (\<lambda>i. 7 \<le> i) (trailing_window (length (rising_candles 5))))"
    and rsi14_5: "map Some (RSI14Values d5) =
       map (\<lambda>i. calculateRSI (take (i + 1) (rising_candles 5)) 14)
         (filter (\<lambda>i. 14 \<le> i) (trailing_window (length (rising_candles 5))))"
    using calculateIntradaySeries_sampled [of "rising_candles 5"] by blast
  have a5: "MidPrices d5 = [1, 2, 3, 4, 5]" "EMA20Values d5 = []" "MACDValues d5 = []"
    "RSI7Values d5 = []" "RSI14Values d5 = []"
    using mid5 ema5 macd5 rsi7_5 rsi14_5 by (simp_all add: l w c5)
  obtain d where d: "calculateIntradaySeries (rising_candles 20) = Some d"
    and mid: "MidPrices d = map Close (drop (length (rising_candles 20) - 10) (rising_candles 20))"
    and ema: "map Some (EMA20Values d) =
       map (\<lambda>i. calculateEMA (take (i + 1) (rising_candles 20)) 20)
         (filter (\<lambda>i. 19 \<le> i) (trailing_window (length (rising_candles 20))))"
    and macd: "map Some (MACDValues d) =
       map (\<lambda>i. calculateMACD (take (i + 1) (rising_candles 20)))
         (filter (\<lambda>i. 25 \<le> i) (trailing_window (length (rising_candles 20))))"
    and rsi7: "map Some (RSI7Values d) =
       map (\<lambda>i. calculateRSI (take (i + 1) (rising_candles 20)) 7)
         (filter (\<lambda>i. 7 \<le> i) (trailing_window (length (rising_candles 20))))"
    and rsi14: "map Some (RSI14Values d) =
       map (\<lambda>i. calculateRSI (take (i + 1) (rising_candles 20)) 14)
         (filter (\<lambda>i. 14 \<le> i) (trailing_window (length (rising_candles 20))))"
    using calculateIntradaySeries_sampled [of "rising_candles 20"] by blast
  have "map Some (EMA20Values d) = [Some 10.5]"
    using ema by (simp add: l w e)
  then have a_ema: "EMA20Values d = [10.5]"
    by (auto simp: map_eq_Cons_conv)
  have a_mid: "MidPrices d = [11, 12, 13, 14, 15, 16, 17, 18, 19, 20]"
    using mid m20 by (simp add: l)
  have a_macd: "MACDValues d = []"
    using macd by (simp add: l w)
  have "length (map Some (RSI7Values d)) = 10"
    unfolding rsi7 by (simp add: l w)
  then have a_rsi7: "length (RSI7Values d) = 10"
    by simp
  have "length (map Some (RSI14Values d)) = 6"
    unfolding rsi14 by (simp add: l w)
  then have a_rsi14: "length (RSI14Values d) = 6"
    by simp
  show ?thesis
    by (simp add: d5 a5 d a_mid a_ema a_macd a_rsi7 a_rsi14 l w)
qed


text \<open>
  C7. For a scan interval of at least one minute, with \<open>k = floor(60/scanIntervalMinutes)\<close>:
  the snapshot's \<open>PriceChange1h\<close> is \<open>(latest close - past close)/past close * 100\<close>
  when the intraday sequence has at least \<open>k + 1\<close> candles and the close \<open>k\<close>
  candles before the latest is positive, and 0 otherwise.
\<close>

theorem priceChange1h_lookback:
  "1 \<le> scan \<Longrightarrow>
   calculateIntradayLimit scan = Some limit \<Longrightarrow>
   getKlines p (Normalize symbol) (selectInterval scan) limit = Inr klinesIntraday \<Longrightarrow>
   getKlines p (Normalize symbol) ''4h'' 60 = Inr klines4h \<Longrightarrow>
   klinesIntraday \<noteq> [] \<Longrightarrow>
   \<exists>d. GetWithInterval p symbol scan = Returned d \<and>
       PriceChange1h d =
         (let k = nat (60 div scan);
              n = length klinesIntraday
          in if k + 1 \<le> n \<and> 0 < Close (klinesIntraday ! (n - 1 - k))
             then (Close (klinesIntraday ! (n - 1)) - Close (klinesIntraday ! (n - 1 - k))) /
                    Close (klinesIntraday ! (n - 1 - k)) * 100
             else 0)"
  by (simp add: GetWithInterval_returns priceChange1h_spec_def)

text \<open>
  The witness: a scan interval of 3 minutes and 21 candles closing at 100 but for the
  latest, which closes at 110. The lookback is 20 candles and the change is exactly 10.
\<close>

theorem priceChange1h_lookback_witness:
  "(1::int) \<le> 3 \<and>
   calculateIntradayLimit 3 = Some 40 \<and>
   getKlines good_provider (Normalize ''btc'') (selectInterval 3) 40 = Inr hour_candles \<and>
   getKlines good_provider (Normalize ''btc'') ''4h'' 60 = Inr two_4h_candles \<and>
   hour_candles \<noteq> [] \<and>
   length hour_candles = 21 \<and> nat (60 div 3) = 20 \<and>
   Close (hour_candles ! 20) = 110 \<and> Close (hour_candles ! 0) = 100 \<and>
   map_result PriceChange1h (GetWithInterval good_provider ''btc'' 3) = Returned 10"
proof -
  obtain d where d: "GetWithInterval good_provider ''btc'' 3 = Returned d"
    and c: "PriceChange1h d =
         (let k = nat (60 div 3);
              n = length hour_candles
          in if k + 1 \<le> n \<and> 0 < Close (hour_candles ! (n - 1 - k))
             then (Close (hour_candles ! (n - 1)) - Close (hour_candles ! (n - 1 - k))) /
                    Close (hour_candles ! (n - 1 - k)) * 100
             else 0)"
    using priceChange1h_lookback [of 3 40 good_provider "''btc''" hour_candles two_4h_candles]
    by (auto simp: calculateIntradayLimit_3 good_provider_fetches hour_candles_facts)
  have "PriceChange1h d = 10"
    by (simp add: c hour_candles_facts Let_def)
  then show ?thesis
    by (simp add: d calculateIntradayLimit_3 good_provider_fetches hour_candles_facts)
qed

text \<open>
  C1, as the code has it. When the 4h sequence has at least two candles and the close
  of the candle at index \<open>len-2\<close> is positive, the snapshot's \<open>PriceChange4h\<close> is
  \<open>(currentPrice - that close) / that close * 100\<close>, where \<open>currentPrice\<close> is the close
  of the latest intraday candle; it is 0 when the 4h sequence has fewer than two candles
  or that close is not positive.
\<close>

theorem priceChange4h_against_current_price:
  "1 \<le> scan \<Longrightarrow>
   calculateIntradayLimit scan = Some limit \<Longrightarrow>
   getKlines p (Normalize symbol) (selectInterval scan) limit = Inr klinesIntraday \<Longrightarrow>
   getKlines p (Normalize symbol) ''4h'' 60 = Inr klines4h \<Longrightarrow>
   klinesIntraday \<noteq> [] \<Longrightarrow>
   \<exists>d. GetWithInterval p symbol scan = Returned d \<and>
       CurrentPrice d = Close (klinesIntraday ! (length klinesIntraday - 1)) \<and>
       PriceChange4h d =
         (let n = length klines4h
          in if 2 \<le> n \<and> 0 < Close (klines4h ! (n - 2))
             then (CurrentPrice d - Close (klines4h ! (n - 2))) /
                    Close (klines4h ! (n - 2)) * 100
             else 0)"
  by (simp add: GetWithInterval_returns priceChange4h_against_def Let_def)

text \<open>
  The witness: the latest intraday close is 110 and the two 4h candles close at 100 and
  120, so the change is \<open>(110 - 100) / 100 * 100 = 10\<close>.
\<close>

theorem priceChange4h_against_current_price_witness:
  "(1::int) \<le> 3 \<and>
   calculateIntradayLimit 3 = Some 40 \<and>
   getKlines good_provider (Normalize ''btc'') (selectInterval 3) 40 = Inr hour_candles \<and>
   getKlines good_provider (Normalize ''btc'') ''4h'' 60 = Inr two_4h_candles \<and>
   hour_candles \<noteq> [] \<and>
   map_result CurrentPrice (GetWithInterval good_provider ''btc'' 3) = Returned 110 \<and>
   map_result PriceChange4h (GetWithInterval good_provider ''btc'' 3) = Returned 10"
proof -
  obtain d where d: "GetWithInterval good_provider ''btc'' 3 = Returned d"
    and p: "CurrentPrice d = Close (hour_candles ! (length hour_candles - 1))"
    and c: "PriceChange4h d =
         (let n = length two_4h_candles
          in if 2 \<le> n \<and> 0 < Close (two_4h_candles ! (n - 2))
             then (CurrentPrice d - Close (two_4h_candles ! (n - 2))) /
                    Close (two_4h_candles ! (n - 2)) * 100
             else 0)"
    using priceChange4h_against_current_price
      [of 3 40 good_provider "''btc''" hour_candles two_4h_candles]
    by (auto simp: calculateIntradayLimit_3 good_provider_fetches hour_candles_facts)
  have p': "CurrentPrice d = 110"
    by (simp add: p hour_candles_facts)
  have "PriceChange4h d = 10"
    by (simp add: c p' two_4h_candles_facts Let_def)
  then show ?thesis
    by (simp add: d p' calculateIntradayLimit_3 good_provider_fetches hour_candles_facts)
qed

text \<open>
  C1 as the specification states it fails: with the latest intraday close at 110 and the
  4h closes 100 and 120, the specification's formula gives
  \<open>(120 - 100) / 100 * 100 = 20\<close>, and the snapshot holds 10.
\<close>

theorem priceChange4h_latest_4h_close_counterexample:
  "getKlines good_provider (Normalize ''btc'') ''4h'' 60 = Inr two_4h_candles \<and>
   priceChange4h_spec two_4h_candles = 20 \<and>
   map_result PriceChange4h (GetWithInterval good_provider ''btc'' 3) = Returned 10"
proof -
  have g: "GetWithInterval good_provider ''btc'' 3 =
      Returned \<lparr>Symbol = Normalize ''btc'',
       CurrentPrice = Close (hour_candles ! (length hour_candles - 1)),
       PriceChange1h = priceChange1h_spec hour_candles 3,
       PriceChange4h = priceChange4h_against two_4h_candles
         (Close (hour_candles ! (length hour_candles - 1))),
       CurrentEMA20 = EMA_spec (map Close hour_candles) 20,
       CurrentMACD = MACD_spec (map Close hour_candles),
       CurrentRSI7 = RSI_spec (map Close hour_candles) 7,
       OpenInterest = (case getOpenInterestData good_provider (Normalize ''btc'') of
                         Inl err \<Rightarrow> \<lparr>Latest = 0, Average = 0\<rparr>
                       | Inr d \<Rightarrow> d),
       FundingRate = fst (getFundingRate good_provider (Normalize ''btc'')),
       IntradaySeries = (intraday_series_spec hour_candles)
         \<lparr>Interval := selectInterval 3\<rparr>,
       LongerTermContext = longer_term_spec two_4h_candles\<rparr>"
    by (rule GetWithInterval_returns [where limit = 40])
      (simp_all add: calculateIntradayLimit_3 good_provider_fetches hour_candles_facts)
  have s: "priceChange4h_spec two_4h_candles = 20"
    by (simp add: priceChange4h_spec_def two_4h_candles_facts Let_def)
  have c: "priceChange4h_against two_4h_candles 110 = 10"
    by (simp add: priceChange4h_against_def two_4h_candles_facts Let_def)
  show ?thesis
    by (simp add: g s c good_provider_fetches hour_candles_facts)
qed

text \<open>
  C8. \<open>GetWithInterval\<close> returns an error exactly when one of the two candle fetches
  fails, and the error tells which: \<open>KlinesError\<close> with the intraday interval, or
  \<open>Klines4hError\<close>. A failing open-interest fetch changes nothing but the snapshot's
  \<open>OpenInterest\<close>, which is \<open>{0, 0}\<close>; a failing funding-rate fetch changes nothing but
  \<open>FundingRate\<close>, which is 0: the result is that of the same run with a successful
  fetch, with that one field replaced.
\<close>

theorem GetWithInterval_fails_iff_candle_fetch_fails:
  "calculateIntradayLimit scan = Some limit \<Longrightarrow>
   ((\<exists>e. GetWithInterval p symbol scan = Failed e) \<longleftrightarrow>
      (isl (getKlines p (Normalize symbol) (selectInterval scan) limit) \<or>
       isl (getKlines p (Normalize symbol) ''4h'' 60))) \<and>
   (\<forall>err. getKlines p (Normalize symbol) (selectInterval scan) limit = Inl err \<longrightarrow>
      GetWithInterval p symbol scan = Failed (KlinesError (selectInterval scan) err)) \<and>
   (\<forall>klinesIntraday err.
      getKlines p (Normalize symbol) (selectInterval scan) limit = Inr klinesIntraday \<and>
      getKlines p (Normalize symbol) ''4h'' 60 = Inl err \<longrightarrow>
      GetWithInterval p symbol scan = Failed (Klines4hError err)) \<and>
   (\<forall>e oi. openInterestResponse p (Normalize symbol) = Inl e \<longrightarrow>
      GetWithInterval p symbol scan =
        map_result (\<lambda>d. d\<lparr>OpenInterest := \<lparr>Latest = 0, Average = 0\<rparr>\<rparr>)
          (GetWithInterval (p\<lparr>openInterestResponse := \<lambda>symbol. Inr oi\<rparr>) symbol scan)) \<and>
   (\<forall>e rate. fundingRateResponse p (Normalize symbol) = Inl e \<longrightarrow>
      GetWithInterval p symbol scan =
        map_result (\<lambda>d. d\<lparr>FundingRate := 0\<rparr>)
          (GetWithInterval (p\<lparr>fundingRateResponse := \<lambda>symbol. Inr rate\<rparr>) symbol scan)) \<and>
   (\<forall>klinesIntraday klines4h e.
      1 \<le> scan \<and>
      getKlines p (Normalize symbol) (selectInterval scan) limit = Inr klinesIntraday \<and>
      getKlines p (Normalize symbol) ''4h'' 60 = Inr klines4h \<and>
      klinesIntraday \<noteq> [] \<and>
      openInterestResponse p (Normalize symbol) = Inl e \<longrightarrow>
      map_result OpenInterest (GetWithInterval p symbol scan) =
        Returned \<lparr>Latest = 0, Average = 0\<rparr>) \<and>
   (\<forall>klinesIntraday klines4h e.
      1 \<le> scan \<and>
      getKlines p (Normalize symbol) (selectInterval scan) limit = Inr klinesIntraday \<and>
      getKlines p (Normalize symbol) ''4h'' 60 = Inr klines4h \<and>
      klinesIntraday \<noteq> [] \<and>
      fundingRateResponse p (Normalize symbol) = Inl e \<longrightarrow>
      map_result FundingRate (GetWithInterval p symbol scan) = Returned 0)"
proof (intro conjI allI impI)
  assume l: "calculateIntradayLimit scan = Some limit"
  show "(\<exists>e. GetWithInterval p symbol scan = Failed e) \<longleftrightarrow>
      (isl (getKlines p (Normalize symbol) (selectInterval scan) limit) \<or>
       isl (getKlines p (Normalize symbol) ''4h'' 60))"
    by (rule GetWithInterval_Failed_iff [OF l])
  show "GetWithInterval p symbol scan = Failed (KlinesError (selectInterval scan) err)"
    if "getKlines p (Normalize symbol) (selectInterval scan) limit = Inl err" for err
    by (rule GetWithInterval_intraday_error [OF l that])
  show "GetWithInterval p symbol scan = Failed (Klines4hError err)"
    if "getKlines p (Normalize symbol) (selectInterval scan) limit = Inr klinesIntraday \<and>
        getKlines p (Normalize symbol) ''4h'' 60 = Inl err" for klinesIntraday err
    using that by (auto intro: GetWithInterval_4h_error [OF l])
  show "GetWithInterval p symbol scan =
        map_result (\<lambda>d. d\<lparr>OpenInterest := \<lparr>Latest = 0, Average = 0\<rparr>\<rparr>)
          (GetWithInterval (p\<lparr>openInterestResponse := \<lambda>symbol. Inr oi\<rparr>) symbol scan)"
    if "openInterestResponse p (Normalize symbol) = Inl e" for e oi
    by (rule GetWithInterval_oi_failure [OF that])
  show "GetWithInterval p symbol scan =
        map_result (\<lambda>d. d\<lparr>FundingRate := 0\<rparr>)
          (GetWithInterval (p\<lparr>fundingRateResponse := \<lambda>symbol. Inr rate\<rparr>) symbol scan)"
    if "fundingRateResponse p (Normalize symbol) = Inl e" for e rate
    by (rule GetWithInterval_funding_failure [OF that])
  show "map_result OpenInterest (GetWithInterval p symbol scan) =
        Returned \<lparr>Latest = 0, Average = 0\<rparr>"
    if "1 \<le> scan \<and>
      getKlines p (Normalize symbol) (selectInterval scan) limit = Inr klinesIntraday \<and>
      getKlines p (Normalize symbol) ''4h'' 60 = Inr klines4h \<and>
      klinesIntraday \<noteq> [] \<and>
      openInterestResponse p (Normalize symbol) = Inl e" for klinesIntraday klines4h e
    using that l by (auto intro: GetWithInterval_oi_default)
  show "map_result FundingRate (GetWithInterval p symbol scan) = Returned 0"
    if "1 \<le> scan \<and>
      getKlines p (Normalize symbol) (selectInterval scan) limit = Inr klinesIntraday \<and>
      getKlines p (Normalize symbol) ''4h'' 60 = Inr klines4h \<and>
      klinesIntraday \<noteq> [] \<and>
      fundingRateResponse p (Normalize symbol) = Inl e" for klinesIntraday klines4h e
    using that l by (auto intro: GetWithInterval_funding_default)
qed


text \<open>
  The witness, at a scan interval of 3 minutes. A failing intraday fetch gives the error
  that names the interval \<open>3m\<close>; a failing 4-hour fetch gives the 4-hour error; with
  both candle fetches delivering and the open-interest and funding-rate fetches failing,
  a snapshot is returned with the open interest \<open>{0, 0}\<close>, the funding rate 0 and the
  current price 110.
\<close>

theorem GetWithInterval_fails_iff_candle_fetch_fails_witness:
  "calculateIntradayLimit 3 = Some 40 \<and>
   getKlines no_intraday_provider (Normalize ''btc'') (selectInterval 3) 40 = Inl ''timeout'' \<and>
   GetWithInterval no_intraday_provider ''btc'' 3 = Failed (KlinesError ''3m'' ''timeout'') \<and>
   getKlines no_4h_provider (Normalize ''btc'') (selectInterval 3) 40 = Inr hour_candles \<and>
   getKlines no_4h_provider (Normalize ''btc'') ''4h'' 60 = Inl ''timeout'' \<and>
   GetWithInterval no_4h_provider ''btc'' 3 = Failed (Klines4hError ''timeout'') \<and>
   (1::int) \<le> 3 \<and>
   getKlines no_oi_provider (Normalize ''btc'') (selectInterval 3) 40 = Inr hour_candles \<and>
   getKlines no_oi_provider (Normalize ''btc'') ''4h'' 60 = Inr two_4h_candles \<and>
   hour_candles \<noteq> [] \<and>
   openInterestResponse no_oi_provider (Normalize ''btc'') = Inl ''timeout'' \<and>
   fundingRateResponse no_oi_provider (Normalize ''btc'') = Inl ''timeout'' \<and>
   \<not> isl (getKlines no_oi_provider (Normalize ''btc'') (selectInterval 3) 40) \<and>
   \<not> isl (getKlines no_oi_provider (Normalize ''btc'') ''4h'' 60) \<and>
   (\<nexists>e. GetWithInterval no_oi_provider ''btc'' 3 = Failed e) \<and>
   map_result OpenInterest (GetWithInterval no_oi_provider ''btc'' 3) =
     Returned \<lparr>Latest = 0, Average = 0\<rparr> \<and>
   map_result FundingRate (GetWithInterval no_oi_provider ''btc'' 3) = Returned 0"
proof -
  note l = calculateIntradayLimit_3
  have a: "GetWithInterval no_intraday_provider ''btc'' 3 = Failed (KlinesError ''3m'' ''timeout'')"
    using GetWithInterval_fails_iff_candle_fetch_fails [OF l, of no_intraday_provider "''btc''"]
    by (simp add: failing_provider_fetches selectInterval_3)
  have b: "GetWithInterval no_4h_provider ''btc'' 3 = Failed (Klines4hError ''timeout'')"
    using GetWithInterval_fails_iff_candle_fetch_fails [OF l, of no_4h_provider "''btc''"]
    by (simp add: failing_provider_fetches selectInterval_3)
  note t = GetWithInterval_fails_iff_candle_fetch_fails [OF l, of no_oi_provider "''btc''"]
  have c: "\<nexists>e. GetWithInterval no_oi_provider ''btc'' 3 = Failed e"
    using t by (simp add: failing_provider_fetches selectInterval_3)
  have d: "map_result OpenInterest (GetWithInterval no_oi_provider ''btc'' 3) =
     Returned \<lparr>Latest = 0, Average = 0\<rparr>"
    using t by (simp add: failing_provider_fetches selectInterval_3 no_oi_provider_responses hour_candles_facts)
  have e: "map_result FundingRate (GetWithInterval no_oi_provider ''btc'' 3) = Returned 0"
    using t by (simp add: failing_provider_fetches selectInterval_3 no_oi_provider_responses hour_candles_facts)
  show ?thesis
    using a b c d e
    by (simp add: l failing_provider_fetches selectInterval_3 no_oi_provider_responses hour_candles_facts)
qed

text \<open>
  C9. With a scan interval of at least one minute and a non-empty intraday sequence,
  every 4-hour sequence gives a snapshot. With the empty 4-hour sequence the snapshot's
  \<open>PriceChange4h\<close> is 0 and its longer-term context has the six scalars at 0 and both
  series empty. With an empty intraday sequence the read of the latest candle is out of
  range and the code panics.
\<close>

theorem empty_4h_sequence_is_safe:
  "1 \<le> scan \<Longrightarrow>
   calculateIntradayLimit scan = Some limit \<Longrightarrow>
   getKlines p (Normalize symbol) (selectInterval scan) limit = Inr klinesIntraday \<Longrightarrow>
   getKlines p (Normalize symbol) ''4h'' 60 = Inr klines4h \<Longrightarrow>
   (klinesIntraday \<noteq> [] \<longrightarrow> (\<exists>d. GetWithInterval p symbol scan = Returned d)) \<and>
   (klinesIntraday \<noteq> [] \<and> klines4h = [] \<longrightarrow>
      (\<exists>d. GetWithInterval p symbol scan = Returned d \<and>
           PriceChange4h d = 0 \<and>
           LongerTermContext d =
             \<lparr>EMA20 = 0, EMA50 = 0, ATR3 = 0, ATR14 = 0, CurrentVolume = 0,
              AverageVolume = 0, LT_MACDValues = [], LT_RSI14Values = []\<rparr>)) \<and>
   (klinesIntraday = [] \<longrightarrow> GetWithInterval p symbol scan = Panicked IndexOutOfRange)"
  by (simp add: GetWithInterval_returns GetWithInterval_fetched priceChange4h_against_Nil
      longer_term_spec_Nil zero_context_def)

text \<open>
  The witness: 21 intraday candles and no 4-hour candle give a snapshot with the current
  price 110, the 4-hour change 0 and the zero context; no intraday candle gives the
  panic.
\<close>

theorem empty_4h_sequence_is_safe_witness:
  "(1::int) \<le> 3 \<and>
   calculateIntradayLimit 3 = Some 40 \<and>
   getKlines empty_4h_provider (Normalize ''btc'') (selectInterval 3) 40 = Inr hour_candles \<and>
   getKlines empty_4h_provider (Normalize ''btc'') ''4h'' 60 = Inr [] \<and>
   hour_candles \<noteq> [] \<and>
   map_result PriceChange4h (GetWithInterval empty_4h_provider ''btc'' 3) = Returned 0 \<and>
   map_result LongerTermContext (GetWithInterval empty_4h_provider ''btc'' 3) =
     Returned \<lparr>EMA20 = 0, EMA50 = 0, ATR3 = 0, ATR14 = 0, CurrentVolume = 0,
       AverageVolume = 0, LT_MACDValues = [], LT_RSI14Values = []\<rparr> \<and>
   getKlines empty_intraday_provider (Normalize ''btc'') (selectInterval 3) 40 = Inr [] \<and>
   getKlines empty_intraday_provider (Normalize ''btc'') ''4h'' 60 = Inr two_4h_candles \<and>
   GetWithInterval empty_intraday_provider ''btc'' 3 = Panicked IndexOutOfRange"
proof -
  note l = calculateIntradayLimit_3
  obtain d where d: "GetWithInterval empty_4h_provider ''btc'' 3 = Returned d"
    and c: "PriceChange4h d = 0"
    and z: "LongerTermContext d =
       \<lparr>EMA20 = 0, EMA50 = 0, ATR3 = 0, ATR14 = 0, CurrentVolume = 0,
        AverageVolume = 0, LT_MACDValues = [], LT_RSI14Values = []\<rparr>"
    using empty_4h_sequence_is_safe [OF _ l, of empty_4h_provider "''btc''" hour_candles "[]"]
    by (auto simp: failing_provider_fetches selectInterval_3 hour_candles_facts)
  have p: "GetWithInterval empty_intraday_provider ''btc'' 3 = Panicked IndexOutOfRange"
    using empty_4h_sequence_is_safe
      [OF _ l, of empty_intraday_provider "''btc''" "[]" two_4h_candles]
    by (simp add: failing_provider_fetches selectInterval_3)
  show ?thesis
    by (simp add: d c z p l failing_provider_fetches selectInterval_3 hour_candles_facts)
qed

end
